theory Spec2Isabelle
  imports Main
begin

section \<open>Values, exceptions and the outside world\<close>

text \<open>
  The client of \<^verbatim>\<open>tap_ms_teams/client.py\<close> is modelled as pure functions over an explicit
  client state. A Python string is a \<^typ>\<open>string\<close>, read as a sequence of code points below
  256. A decoded JSON document (and any Python value that may stand where one is expected,
  such as a URL taken from a page) is a \<open>jvalue\<close>; an object keeps its items in order, and
  its keys are distinct as those of a Python dict are. Numbers are integers.
\<close>

datatype jvalue =
    JNull
  | JBool bool
  | JInt int
  | JStr string
  | JArr "jvalue list"
  | JObj "(string \<times> jvalue) list"

text \<open>Python truthiness, as \<^verbatim>\<open>if body:\<close> and \<^verbatim>\<open>while next_url:\<close> test it.\<close>

fun truthy :: "jvalue \<Rightarrow> bool" where
  "truthy JNull = False"
| "truthy (JBool b) = b"
| "truthy (JInt i) = (i \<noteq> 0)"
| "truthy (JStr s) = (s \<noteq> [])"
| "truthy (JArr xs) = (xs \<noteq> [])"
| "truthy (JObj kvs) = (kvs \<noteq> [])"

text \<open>\<^verbatim>\<open>d.get(k, default)\<close> on a dict; \<^verbatim>\<open>d.get(k)\<close> is \<open>dict_get d k JNull\<close>.\<close>

definition dict_get :: "(string \<times> jvalue) list \<Rightarrow> string \<Rightarrow> jvalue \<Rightarrow> jvalue" where
  "dict_get kvs k dflt = (case map_of kvs k of None \<Rightarrow> dflt | Some v \<Rightarrow> v)"

text \<open>
  The exceptions that can leave the client. \<open>Server5xxError\<close> and \<open>Server42xRateLimitError\<close>
  are the classes of the module; \<open>ConnectionError\<close> is the builtin class the retry decorator
  names; \<open>Exception\<close> and \<open>RuntimeError\<close> carry their message; \<open>JSONDecodeError\<close> is what
  \<^verbatim>\<open>response.json()\<close> raises on a body that is no JSON; \<open>AttributeError\<close> and \<open>TypeError\<close>
  are what \<^verbatim>\<open>.get\<close> on a non-dict and \<^verbatim>\<open>extend\<close> with a non-iterable raise;
  \<open>RequestsConnectionError\<close> is \<^verbatim>\<open>requests.exceptions.ConnectionError\<close>, which the HTTP
  session raises when a connection fails; it derives from \<^verbatim>\<open>RequestException\<close> and
  \<^verbatim>\<open>IOError\<close> and is not a subclass of the builtin \<open>ConnectionError\<close>;
  \<open>RequestException\<close> stands for any other failure raised by the HTTP session; \<open>ValueError\<close>
  is what \<^verbatim>\<open>urllib.parse\<close> raises.
\<close>

datatype exn =
    Server5xxError
  | Server42xRateLimitError
  | ConnectionError
  | Exception string
  | RuntimeError string
  | JSONDecodeError
  | AttributeError
  | TypeError
  | RequestsConnectionError
  | RequestException string
  | ValueError

text \<open>The configuration mapping: its four keys, each a string or absent.\<close>

record config =
  cfg_client_id :: "string option"
  cfg_client_secret :: "string option"
  cfg_tenant_id :: "string option"
  cfg_user_agent :: "string option"

text \<open>
  A header value is kept as the code builds it: \<open>Bearer v\<close> is
  \<^verbatim>\<open>'Bearer {}'.format(v)\<close> for the stored token \<open>v\<close> (which need not be a string), and
  \<open>Plain s\<close> is the string \<open>s\<close>.
\<close>

datatype header_value = Bearer jvalue | Plain string

text \<open>
  What the client hands to \<^verbatim>\<open>session.get\<close> or \<^verbatim>\<open>session.post\<close>: the verb, the URL, the
  \<^verbatim>\<open>headers=\<close> argument (empty when none is passed) and the \<^verbatim>\<open>data=\<close> argument.
\<close>

record request =
  req_method :: string
  req_url :: jvalue
  req_headers :: "(string \<times> header_value) list"
  req_data :: "(string \<times> string option) list option"

text \<open>
  A response: its status code, its raw text, and what \<^verbatim>\<open>response.json()\<close> returns
  (\<open>None\<close> when the body does not decode).
\<close>

record response =
  status_code :: int
  response_text :: string
  response_json :: "jvalue option"

datatype outcome = Responds response | Raises exn

text \<open>
  The network is a parameter: it answers a request given all requests sent before it, by a
  response or by raising.
\<close>

type_synonym network = "request list \<Rightarrow> request \<Rightarrow> outcome"

text \<open>
  The state: the attributes of \<^verbatim>\<open>MicrosoftGraphClient\<close> that change, and three logs of
  its effects. \<open>sent\<close> lists the requests issued so far, oldest first; \<open>timers\<close> lists the
  intervals of the \<^verbatim>\<open>threading.Timer\<close>s started; \<open>waits\<close> lists the values the retry
  decorator has drawn from its wait generator, one before each retry. The callback of a
  started timer runs on another thread and is not part of this model: only the arming is
  recorded.
\<close>

record client =
  access_token :: jvalue
  client_id :: "string option"
  client_secret :: "string option"
  tenant_id :: "string option"
  login_timer :: "nat option"
  sent :: "request list"
  timers :: "nat list"
  waits :: "nat list"

text \<open>
  A method call maps a state to \<open>Some (result, state)\<close>, the result being \<open>Inl e\<close> for a
  raised exception and \<open>Inr v\<close> for a returned value, or to \<open>None\<close> when the call does not
  finish within the given fuel.
\<close>

type_synonym 'a action = "client \<Rightarrow> ((exn + 'a) \<times> client) option"

definition SCOPE :: string where
  "SCOPE = ''https://graph.microsoft.com/.default''"

definition BASE_GRAPH_URL :: string where
  "BASE_GRAPH_URL = ''https://graph.microsoft.com''"

definition TOKEN_EXPIRATION_PERIOD :: nat where
  "TOKEN_EXPIRATION_PERIOD = 3599"

text \<open>The class attribute \<^verbatim>\<open>MAX_TRIES\<close>; the decorator has the same number as a literal.\<close>

definition MAX_TRIES :: nat where
  "MAX_TRIES = 5"

text \<open>\<^verbatim>\<open>'{}'.format(v)\<close> for a string or \<^verbatim>\<open>None\<close>.\<close>

definition str_opt :: "string option \<Rightarrow> string" where
  "str_opt v = (case v of None \<Rightarrow> ''None'' | Some s \<Rightarrow> s)"

definition TOKEN_URL :: "string option \<Rightarrow> string" where
  "TOKEN_URL tenant =
     ''https://login.microsoftonline.com/'' @ str_opt tenant @ ''/oauth2/v2.0/token''"

section \<open>The URL library\<close>

text \<open>
  \<^verbatim>\<open>urllib.parse\<close> as of CPython 3.11: \<^verbatim>\<open>urlsplit\<close>, \<^verbatim>\<open>urlparse\<close>, \<^verbatim>\<open>urlunsplit\<close>,
  \<^verbatim>\<open>urlunparse\<close>, \<^verbatim>\<open>quote_plus\<close> and \<^verbatim>\<open>urlencode\<close>, on strings.
\<close>

record url_parts =
  url_scheme :: string
  url_netloc :: string
  url_path :: string
  url_params :: string
  url_query :: string
  url_fragment :: string

definition scheme_chars :: string where
  "scheme_chars = ''abcdefghijklmnopqrstuvwxyzABCDEFGHIJKLMNOPQRSTUVWXYZ0123456789+-.''"

definition uses_netloc :: "string list" where
  "uses_netloc = ['''', ''ftp'', ''http'', ''gopher'', ''nntp'', ''telnet'', ''imap'', ''wais'',
     ''file'', ''mms'', ''https'', ''shttp'', ''snews'', ''prospero'', ''rtsp'', ''rtsps'',
     ''rtspu'', ''rsync'', ''svn'', ''svn+ssh'', ''sftp'', ''nfs'', ''git'', ''git+ssh'', ''ws'',
     ''wss'']"

definition uses_params :: "string list" where
  "uses_params = ['''', ''ftp'', ''hdl'', ''prospero'', ''http'', ''imap'', ''https'', ''shttp'',
     ''rtsp'', ''rtsps'', ''rtspu'', ''sip'', ''sips'', ''mms'', ''sftp'', ''tel'']"

definition ascii_upper :: string where
  "ascii_upper = ''ABCDEFGHIJKLMNOPQRSTUVWXYZ''"

definition ascii_lower :: string where
  "ascii_lower = ''abcdefghijklmnopqrstuvwxyz''"

definition lower_char :: "char \<Rightarrow> char" where
  "lower_char c = (if c \<in> set ascii_upper then char_of (of_char c + (32::nat)) else c)"

text \<open>\<^verbatim>\<open>s.split(d, 1)\<close> for a string that contains \<open>d\<close>.\<close>

definition split_first :: "char \<Rightarrow> string \<Rightarrow> string \<times> string" where
  "split_first d s = (takeWhile (\<lambda>c. c \<noteq> d) s, tl (dropWhile (\<lambda>c. c \<noteq> d) s))"

text \<open>\<^verbatim>\<open>_splitnetloc(url, 2)\<close>: the text after \<^verbatim>\<open>//\<close> up to the first of \<^verbatim>\<open>/?#\<close>.\<close>

definition splitnetloc :: "string \<Rightarrow> string \<times> string" where
  "splitnetloc url =
     (let rest = drop 2 url
      in (takeWhile (\<lambda>c. c \<notin> set ''/?#'') rest, dropWhile (\<lambda>c. c \<notin> set ''/?#'') rest))"

text \<open>\<^verbatim>\<open>s.split(d)\<close>.\<close>

fun split_on :: "char \<Rightarrow> string \<Rightarrow> string list" where
  "split_on d [] = [[]]"
| "split_on d (c # cs) =
     (if c = d then [] # split_on d cs
      else (case split_on d cs of [] \<Rightarrow> [[c]] | p # ps \<Rightarrow> (c # p) # ps))"

text \<open>
  The \<^verbatim>\<open>ipaddress\<close> module, as far as \<^verbatim>\<open>urlsplit\<close> uses it: whether a string is accepted
  as an IPv4 address (\<^verbatim>\<open>IPv4Address(s)\<close>) or as an IPv6 address with an optional scope
  id (\<^verbatim>\<open>IPv6Address(s)\<close>).
\<close>

definition valid_octet :: "string \<Rightarrow> bool" where
  "valid_octet str =
     (str \<noteq> [] \<and> list_all (\<lambda>c. c \<in> set ''0123456789'') str \<and> length str \<le> 3
      \<and> (str = ''0'' \<or> hd str \<noteq> CHR ''0'')
      \<and> foldl (\<lambda>n c. 10 * n + (of_char c - 48)) (0::nat) str \<le> 255)"

definition valid_ipv4 :: "string \<Rightarrow> bool" where
  "valid_ipv4 str =
     (CHR ''/'' \<notin> set str \<and> str \<noteq> [] \<and> length (split_on CHR ''.'' str) = 4
      \<and> list_all valid_octet (split_on CHR ''.'' str))"

definition valid_hextet :: "string \<Rightarrow> bool" where
  "valid_hextet str =
     (list_all (\<lambda>c. c \<in> set ''0123456789ABCDEFabcdef'') str \<and> length str \<le> 4 \<and> str \<noteq> [])"

text \<open>
  \<^verbatim>\<open>_ip_int_from_string\<close> of IPv6: the parts between the colons, an IPv4 suffix replaced by
  the two hextets it stands for (always valid ones; \<open>''0''\<close> stands for each), at most one
  empty part inside (the place of \<^verbatim>\<open>::\<close>), and the hextets before and after it.
\<close>

definition valid_ipv6_parts :: "string \<Rightarrow> bool" where
  "valid_ipv6_parts str =
     (let parts = split_on CHR '':'' str in
      if str = [] \<or> length parts < 3 then False
      else if CHR ''.'' \<in> set (last parts) \<and> \<not> valid_ipv4 (last parts) then False
      else
        (let parts = (if CHR ''.'' \<in> set (last parts) then butlast parts @ [''0'', ''0''] else parts);
             skips = filter (\<lambda>i. parts ! i = []) [1..<length parts - 1]
         in if length parts > 9 \<or> length skips > 1 then False
            else
              (case skips of
                 [] \<Rightarrow> length parts = 8 \<and> list_all valid_hextet parts
               | skip_index # _ \<Rightarrow>
                   (let parts_hi = (if hd parts = [] then skip_index - 1 else skip_index);
                        parts_lo = (if last parts = [] then length parts - skip_index - 2
                                    else length parts - skip_index - 1)
                    in (if hd parts = [] then parts_hi = 0 else True)
                       \<and> (if last parts = [] then parts_lo = 0 else True)
                       \<and> parts_hi + parts_lo < 8
                       \<and> list_all valid_hextet (take parts_hi parts)
                       \<and> list_all valid_hextet (drop (length parts - parts_lo) parts)))))"

definition valid_ipv6 :: "string \<Rightarrow> bool" where
  "valid_ipv6 str =
     (if CHR ''/'' \<in> set str then False
      else if CHR ''%'' \<in> set str
        then snd (split_first CHR ''%'' str) \<noteq> [] \<and> CHR ''%'' \<notin> set (snd (split_first CHR ''%'' str))
             \<and> valid_ipv6_parts (fst (split_first CHR ''%'' str))
      else valid_ipv6_parts str)"

text \<open>
  \<^verbatim>\<open>_check_bracketed_host(hostname)\<close>, \<open>True\<close> when it does not raise: a host that starts
  with \<^verbatim>\<open>v\<close> has to match \<^verbatim>\<open>v[a-fA-F0-9]+\..+\<close>; any other host has to be an IP address
  (\<^verbatim>\<open>ipaddress.ip_address\<close> tries IPv4 first) and must not be an IPv4 one.
\<close>

definition check_bracketed_host :: "string \<Rightarrow> bool" where
  "check_bracketed_host hostname =
     (if take 1 hostname = ''v'' then
        (let hex = takeWhile (\<lambda>c. c \<in> set ''0123456789ABCDEFabcdef'') (tl hostname);
             rest = dropWhile (\<lambda>c. c \<in> set ''0123456789ABCDEFabcdef'') (tl hostname)
         in hex \<noteq> [] \<and> take 1 rest = ''.'' \<and> tl rest \<noteq> [] \<and> CHR 0x0A \<notin> set (tl rest))
      else if valid_ipv4 hostname then False
      else valid_ipv6 hostname)"

text \<open>
  \<^verbatim>\<open>urlsplit(url)\<close>: leading characters up to the space are stripped, tab, carriage return
  and newline are removed, then scheme, netloc, fragment and query are cut off in this
  order. Unpaired brackets in the netloc raise \<open>ValueError\<close>, and so does a bracketed
  host (the text between the first \<^verbatim>\<open>[\<close> and the next \<^verbatim>\<open>]\<close>) that fails
  \<open>check_bracketed_host\<close>. The NFKC check of the netloc never fails on code points below
  256.
\<close>

definition urlsplit :: "string \<Rightarrow> exn + url_parts" where
  "urlsplit url0 =
    (let url = dropWhile (\<lambda>c. of_char c \<le> (32::nat)) url0;
         url = filter (\<lambda>c. c \<notin> {CHR 0x09, CHR 0x0D, CHR 0x0A}) url;
         head = takeWhile (\<lambda>c. c \<noteq> CHR '':'') url;
         (scheme, url) =
           (if CHR '':'' \<in> set url \<and> head \<noteq> [] \<and> hd url \<in> set (ascii_lower @ ascii_upper)
               \<and> list_all (\<lambda>c. c \<in> set scheme_chars) head
            then (map lower_char head, drop (Suc (length head)) url)
            else ('''', url));
         (netloc, url) = (if take 2 url = ''//'' then splitnetloc url else ('''', url))
     in if (CHR ''['' \<in> set netloc) \<noteq> (CHR '']'' \<in> set netloc) then Inl ValueError
        else if CHR ''['' \<in> set netloc
                \<and> \<not> check_bracketed_host
                      (takeWhile (\<lambda>c. c \<noteq> CHR '']'') (tl (dropWhile (\<lambda>c. c \<noteq> CHR ''['') netloc)))
          then Inl ValueError
        else
          (let (url, fragment) =
                 (if CHR ''#'' \<in> set url then split_first CHR ''#'' url else (url, ''''));
               (url, query) =
                 (if CHR ''?'' \<in> set url then split_first CHR ''?'' url else (url, ''''))
           in Inr \<lparr>url_scheme = scheme, url_netloc = netloc, url_path = url, url_params = '''',
                    url_query = query, url_fragment = fragment\<rparr>))"

text \<open>
  \<^verbatim>\<open>_splitparams(url)\<close> for a path that contains a semicolon: the parameters start at the
  first semicolon of the last path segment.
\<close>

definition splitparams :: "string \<Rightarrow> string \<times> string" where
  "splitparams url =
     (if CHR ''/'' \<in> set url then
        (let last_seg = rev (takeWhile (\<lambda>c. c \<noteq> CHR ''/'') (rev url));
             upto = take (length url - length last_seg) url
         in if CHR '';'' \<in> set last_seg
            then (upto @ fst (split_first CHR '';'' last_seg), snd (split_first CHR '';'' last_seg))
            else (url, ''''))
      else split_first CHR '';'' url)"

definition urlparse :: "string \<Rightarrow> exn + url_parts" where
  "urlparse url =
     (case urlsplit url of
        Inl e \<Rightarrow> Inl e
      | Inr p \<Rightarrow>
          if url_scheme p \<in> set uses_params \<and> CHR '';'' \<in> set (url_path p)
          then Inr (p\<lparr>url_path := fst (splitparams (url_path p)),
                      url_params := snd (splitparams (url_path p))\<rparr>)
          else Inr p)"

definition urlunsplit :: "string \<Rightarrow> string \<Rightarrow> string \<Rightarrow> string \<Rightarrow> string \<Rightarrow> string" where
  "urlunsplit scheme netloc url query fragment =
     (let url = (if netloc \<noteq> [] \<or> (scheme \<noteq> [] \<and> scheme \<in> set uses_netloc) \<or> take 2 url = ''//''
                 then ''//'' @ netloc @ (if url \<noteq> [] \<and> take 1 url \<noteq> ''/'' then ''/'' @ url else url)
                 else url);
          url = (if scheme \<noteq> [] then scheme @ '':'' @ url else url);
          url = (if query \<noteq> [] then url @ ''?'' @ query else url);
          url = (if fragment \<noteq> [] then url @ ''#'' @ fragment else url)
      in url)"

definition urlunparse :: "url_parts \<Rightarrow> string" where
  "urlunparse p =
     urlunsplit (url_scheme p) (url_netloc p)
       (if url_params p \<noteq> [] then url_path p @ '';'' @ url_params p else url_path p)
       (url_query p) (url_fragment p)"

text \<open>A query value: an integer or a string, the two kinds the client's callers pass.\<close>

datatype qvalue = QInt int | QStr string

function str_nat :: "nat \<Rightarrow> string" where
  "str_nat n =
     (if n < 10 then [''0123456789'' ! n]
      else str_nat (n div 10) @ [''0123456789'' ! (n mod 10)])"
  by pat_completeness auto
termination
  by (relation "measure id") auto

declare str_nat.simps [simp del]

definition str_int :: "int \<Rightarrow> string" where
  "str_int i = (if i < 0 then ''-'' @ str_nat (nat (- i)) else str_nat (nat i))"

text \<open>\<^verbatim>\<open>str(v)\<close>.\<close>

fun str_q :: "qvalue \<Rightarrow> string" where
  "str_q (QInt i) = str_int i"
| "str_q (QStr s) = s"

text \<open>The UTF-8 bytes of a code point below 256.\<close>

definition utf8 :: "char \<Rightarrow> nat list" where
  "utf8 c = (let n = of_char c in if n < 128 then [n] else [192 + n div 64, 128 + n mod 64])"

definition always_safe :: string where
  "always_safe = ''ABCDEFGHIJKLMNOPQRSTUVWXYZabcdefghijklmnopqrstuvwxyz0123456789_.-~''"

definition quote_byte :: "nat \<Rightarrow> string" where
  "quote_byte b =
     (if char_of b \<in> set always_safe then [char_of b]
      else if b = 32 then ''+''
      else [CHR ''%'', ''0123456789ABCDEF'' ! (b div 16), ''0123456789ABCDEF'' ! (b mod 16)])"

text \<open>\<^verbatim>\<open>quote_plus(s, safe='')\<close>.\<close>

definition quote_plus :: "string \<Rightarrow> string" where
  "quote_plus s = concat (map quote_byte (concat (map utf8 s)))"

text \<open>\<^verbatim>\<open>sep.join(xs)\<close>.\<close>

fun join :: "string \<Rightarrow> string list \<Rightarrow> string" where
  "join sep [] = ''''"
| "join sep [x] = x"
| "join sep (x # y # ys) = x @ sep @ join sep (y # ys)"

text \<open>\<^verbatim>\<open>urlencode(query)\<close> on the items of a mapping, in their iteration order.\<close>

definition urlencode :: "(string \<times> qvalue) list \<Rightarrow> string" where
  "urlencode qs = join ''&'' (map (\<lambda>(k, v). quote_plus k @ ''='' @ quote_plus (str_q v)) qs)"

section \<open>The client\<close>

text \<open>\<^verbatim>\<open>build_url\<close> (a static method: it reads no state).\<close>

definition build_url ::
  "string \<Rightarrow> string \<Rightarrow> string \<Rightarrow> (string \<times> qvalue) list \<Rightarrow> exn + string" where
  "build_url baseurl version pth args_dict =
     (case urlparse baseurl of
        Inl e \<Rightarrow> Inl e
      | Inr url_parts \<Rightarrow>
          (let url_parts = url_parts\<lparr>url_path := version @ ''/'' @ pth\<rparr>;
               url_parts = url_parts\<lparr>url_query := urlencode args_dict\<rparr>
           in Inr (urlunparse url_parts)))"

text \<open>One call of the session: the network answers, and the request is logged.\<close>

definition session_send :: "network \<Rightarrow> request \<Rightarrow> client \<Rightarrow> outcome \<times> client" where
  "session_send net req s = (net (sent s) req, s\<lparr>sent := sent s @ [req]\<rparr>)"

text \<open>The \<^verbatim>\<open>headers\<close> dict that \<^verbatim>\<open>make_request\<close> builds before it looks at the method.\<close>

definition make_headers :: "config \<Rightarrow> client \<Rightarrow> (string \<times> header_value) list" where
  "make_headers cfg s =
     (let headers = [(''Authorization'', Bearer (access_token s))]
      in case cfg_user_agent cfg of
           None \<Rightarrow> headers
         | Some ua \<Rightarrow> if ua \<noteq> [] then headers @ [(''User-Agent'', Plain ua)] else headers)"

text \<open>
  The body of \<^verbatim>\<open>make_request\<close>, without its decorator. \<open>self_login\<close> is \<^verbatim>\<open>self.login\<close>,
  which the 401 branch calls; it is a parameter because \<^verbatim>\<open>login\<close> calls \<^verbatim>\<open>make_request\<close>
  in turn (the knot is tied in \<open>login\<close> below). The \<^verbatim>\<open>params\<close> argument is only logged.
\<close>

definition make_request_undecorated ::
  "unit action \<Rightarrow> config \<Rightarrow> network \<Rightarrow> string \<Rightarrow> jvalue \<Rightarrow> (string \<times> string) list option
     \<Rightarrow> (string \<times> string option) list option \<Rightarrow> jvalue action" where
  "make_request_undecorated self_login cfg net meth url params data s =
    (let headers = make_headers cfg s;
         sending =
           (if meth = ''GET'' then
              Inr (session_send net
                \<lparr>req_method = ''GET'', req_url = url, req_headers = headers, req_data = None\<rparr> s)
            else if meth = ''POST'' then
              Inr (session_send net
                \<lparr>req_method = ''POST'', req_url = url, req_headers = [], req_data = data\<rparr> s)
            else Inl (Exception ''Unsupported HTTP method''))
     in case sending of
          Inl e \<Rightarrow> Some (Inl e, s)
        | Inr (Raises e, s1) \<Rightarrow> Some (Inl e, s1)
        | Inr (Responds r, s1) \<Rightarrow>
            (let classified =
               (if status_code r = 401 then self_login s1
                else if status_code r = 429 then Some (Inl Server42xRateLimitError, s1)
                else if status_code r \<ge> 500 then Some (Inl Server5xxError, s1)
                else Some (Inr (), s1))
             in case classified of
                  None \<Rightarrow> None
                | Some (Inl e, s2) \<Rightarrow> Some (Inl e, s2)
                | Some (Inr _, s2) \<Rightarrow>
                    if status_code r \<notin> {200, 201, 202}
                    then Some (Inl (RuntimeError (response_text r)), s2)
                    else (case response_json r of
                            None \<Rightarrow> Some (Inl JSONDecodeError, s2)
                          | Some v \<Rightarrow> Some (Inr v, s2))))"

text \<open>
  The decorator \<^verbatim>\<open>backoff.on_exception(backoff.expo, exceptions, max_tries, factor)\<close>.
  \<open>expo factor n\<close> is the \<open>n\<close>-th value of the wait generator. \<open>retry_exception\<close> is the
  decorator's loop with \<open>left\<close> further tries allowed after the current one and \<open>n\<close> values
  drawn from the generator so far: a listed exception is caught, the next wait is drawn and
  logged, and the target is called again; any other exception, and any exception of the
  last try, is raised to the caller. The library then sleeps for a random time between zero
  and the drawn value (its default jitter); the log holds the drawn value. \<open>on_exception\<close>
  starts the loop for a \<open>max_tries\<close> of at least one.
\<close>

definition expo :: "nat \<Rightarrow> nat \<Rightarrow> nat" where
  "expo factor n = factor * 2 ^ n"

fun retry_exception :: "nat \<Rightarrow> (exn \<Rightarrow> bool) \<Rightarrow> nat \<Rightarrow> nat \<Rightarrow> 'a action \<Rightarrow> 'a action" where
  "retry_exception factor is_exc 0 n target s = target s"
| "retry_exception factor is_exc (Suc left) n target s =
     (case target s of
        None \<Rightarrow> None
      | Some (Inr ret, s1) \<Rightarrow> Some (Inr ret, s1)
      | Some (Inl e, s1) \<Rightarrow>
          if is_exc e
          then retry_exception factor is_exc left (Suc n) target
                 (s1\<lparr>waits := waits s1 @ [expo factor n]\<rparr>)
          else Some (Inl e, s1))"

definition on_exception :: "(exn \<Rightarrow> bool) \<Rightarrow> nat \<Rightarrow> nat \<Rightarrow> 'a action \<Rightarrow> 'a action" where
  "on_exception is_exc max_tries factor target =
     retry_exception factor is_exc (max_tries - 1) 0 target"

text \<open>The exception tuple of the decorator on \<^verbatim>\<open>make_request\<close>.\<close>

definition retryable :: "exn \<Rightarrow> bool" where
  "retryable e = (e = Server5xxError \<or> e = ConnectionError \<or> e = Server42xRateLimitError)"

text \<open>\<^verbatim>\<open>make_request\<close> as decorated, for a given \<^verbatim>\<open>self.login\<close>.\<close>

definition make_request_with ::
  "unit action \<Rightarrow> config \<Rightarrow> network \<Rightarrow> string \<Rightarrow> jvalue \<Rightarrow> (string \<times> string) list option
     \<Rightarrow> (string \<times> string option) list option \<Rightarrow> jvalue action" where
  "make_request_with self_login cfg net meth url params data =
     on_exception retryable 5 2 (make_request_undecorated self_login cfg net meth url params data)"

text \<open>The \<^verbatim>\<open>finally\<close> block of \<^verbatim>\<open>login\<close>: a new timer is created and started.\<close>

definition arm_timer :: "client \<Rightarrow> client" where
  "arm_timer s =
     s\<lparr>login_timer := Some TOKEN_EXPIRATION_PERIOD, timers := timers s @ [TOKEN_EXPIRATION_PERIOD]\<rparr>"

text \<open>
  \<^verbatim>\<open>login\<close>. The token request may be answered by 401, on which \<^verbatim>\<open>make_request\<close> calls
  \<^verbatim>\<open>login\<close> again; \<open>fuel\<close> bounds the depth of this nesting.
\<close>

primrec login :: "nat \<Rightarrow> config \<Rightarrow> network \<Rightarrow> unit action" where
  "login 0 cfg net s = None"
| "login (Suc fuel) cfg net s =
     (let s1 = s\<lparr>client_id := cfg_client_id cfg, client_secret := cfg_client_secret cfg,
                  tenant_id := cfg_tenant_id cfg\<rparr>;
          body = [(''grant_type'', Some ''client_credentials''),
                  (''client_id'', client_id s1),
                  (''client_secret'', client_secret s1),
                  (''scope'', Some SCOPE)]
      in case make_request_with (login fuel cfg net) cfg net ''POST''
                (JStr (TOKEN_URL (tenant_id s1))) None (Some body) s1 of
           None \<Rightarrow> None
         | Some (Inl e, s2) \<Rightarrow> Some (Inl e, arm_timer s2)
         | Some (Inr result, s2) \<Rightarrow>
             (case result of
                JObj kvs \<Rightarrow>
                  Some (Inr (), arm_timer (s2\<lparr>access_token := dict_get kvs ''access_token'' JNull\<rparr>))
              | _ \<Rightarrow> Some (Inl AttributeError, arm_timer s2)))"

text \<open>\<^verbatim>\<open>make_request\<close> as callers see it.\<close>

definition make_request ::
  "nat \<Rightarrow> config \<Rightarrow> network \<Rightarrow> string \<Rightarrow> jvalue \<Rightarrow> (string \<times> string) list option
     \<Rightarrow> (string \<times> string option) list option \<Rightarrow> jvalue action" where
  "make_request fuel cfg net = make_request_with (login fuel cfg net) cfg net"

text \<open>
  \<^verbatim>\<open>response.extend(data)\<close>: a list adds its elements, a string its characters, a dict its
  keys; anything else is not iterable.
\<close>

fun extend :: "jvalue list \<Rightarrow> jvalue \<Rightarrow> exn + jvalue list" where
  "extend response (JArr xs) = Inr (response @ xs)"
| "extend response (JStr str) = Inr (response @ map (\<lambda>c. JStr [c]) str)"
| "extend response (JObj kvs) = Inr (response @ map (\<lambda>kv. JStr (fst kv)) kvs)"
| "extend response JNull = Inl TypeError"
| "extend response (JBool b) = Inl TypeError"
| "extend response (JInt i) = Inl TypeError"

text \<open>
  The \<^verbatim>\<open>while next_url:\<close> loop of \<^verbatim>\<open>get_all_resources\<close>; each iteration takes one unit
  of fuel, and what is left bounds the nested logins of its request.
\<close>

fun get_all_resources_loop ::
  "nat \<Rightarrow> config \<Rightarrow> network \<Rightarrow> jvalue \<Rightarrow> jvalue list \<Rightarrow> jvalue list action" where
  "get_all_resources_loop 0 cfg net next_url response s =
     (if truthy next_url then None else Some (Inr response, s))"
| "get_all_resources_loop (Suc fuel) cfg net next_url response s =
     (if truthy next_url then
        (case make_request fuel cfg net ''GET'' next_url None None s of
           None \<Rightarrow> None
         | Some (Inl e, s1) \<Rightarrow> Some (Inl e, s1)
         | Some (Inr body, s1) \<Rightarrow>
             if truthy body then
               (case body of
                  JObj kvs \<Rightarrow>
                    (let next_url = dict_get kvs ''@odata.nextLink'' JNull;
                         data = dict_get kvs ''value'' JNull
                     in case extend response data of
                          Inl e \<Rightarrow> Some (Inl e, s1)
                        | Inr response \<Rightarrow> get_all_resources_loop fuel cfg net next_url response s1)
                | _ \<Rightarrow> Some (Inl AttributeError, s1))
             else get_all_resources_loop fuel cfg net JNull response s1)
      else Some (Inr response, s))"

text \<open>An optional query hint enters \<^verbatim>\<open>args\<close> when it is truthy.\<close>

definition arg_entry :: "string \<Rightarrow> qvalue option \<Rightarrow> (string \<times> qvalue) list" where
  "arg_entry k v =
     (case v of
        None \<Rightarrow> []
      | Some (QInt i) \<Rightarrow> if i \<noteq> 0 then [(k, QInt i)] else []
      | Some (QStr str) \<Rightarrow> if str \<noteq> [] then [(k, QStr str)] else [])"

definition get_all_resources ::
  "nat \<Rightarrow> config \<Rightarrow> network \<Rightarrow> string \<Rightarrow> string \<Rightarrow> qvalue option \<Rightarrow> qvalue option
     \<Rightarrow> qvalue option \<Rightarrow> jvalue list action" where
  "get_all_resources fuel cfg net version endpoint top_arg orderby filter_param s =
     (let args = arg_entry ''$top'' top_arg @ arg_entry ''$orderby'' orderby
                   @ arg_entry ''$filter'' filter_param
      in case build_url BASE_GRAPH_URL version endpoint args of
           Inl e \<Rightarrow> Some (Inl e, s)
         | Inr next_url \<Rightarrow> get_all_resources_loop fuel cfg net (JStr next_url) [] s)"

section \<open>Example inputs\<close>

text \<open>
  A network that answers the \<open>i\<close>-th request with the \<open>i\<close>-th entry of a script; after the
  script no connection can be made.
\<close>

definition scripted :: "outcome list \<Rightarrow> network" where
  "scripted outs hist req =
     (if length hist < length outs then outs ! length hist else Raises RequestsConnectionError)"

definition new_client :: client where
  "new_client = \<lparr>access_token = JNull, client_id = None, client_secret = None, tenant_id = None,
                 login_timer = None, sent = [], timers = [], waits = []\<rparr>"

definition example_config :: config where
  "example_config = \<lparr>cfg_client_id = Some ''id'', cfg_client_secret = Some ''secret'',
                     cfg_tenant_id = Some ''tenant'', cfg_user_agent = Some ''tap''\<rparr>"

definition ok_response :: "jvalue \<Rightarrow> outcome" where
  "ok_response v = Responds \<lparr>status_code = 200, response_text = ''ok'', response_json = Some v\<rparr>"

definition status_response :: "int \<Rightarrow> string \<Rightarrow> outcome" where
  "status_response code txt =
     Responds \<lparr>status_code = code, response_text = txt, response_json = None\<rparr>"

text \<open>
  The exception that \<^verbatim>\<open>make_request\<close> raises for an outcome of the retryable kind, if the
  outcome is of that kind: a listed exception raised by the session, status 429, or a status
  of 500 and above.
\<close>

fun transient_error :: "outcome \<Rightarrow> exn option" where
  "transient_error (Raises e) = (if retryable e then Some e else None)"
| "transient_error (Responds r) =
     (if status_code r = 429 then Some Server42xRateLimitError
      else if status_code r \<ge> 500 then Some Server5xxError
      else None)"

definition example_url :: jvalue where
  "example_url = JStr ''https://graph.microsoft.com/v1.0/users''"

definition example_get :: request where
  "example_get = \<lparr>req_method = ''GET'', req_url = example_url,
     req_headers = [(''Authorization'', Bearer JNull), (''User-Agent'', Plain ''tap'')],
     req_data = None\<rparr>"

definition failing_script :: "outcome list" where
  "failing_script = [status_response 500 ''a'', status_response 429 ''b'', Raises ConnectionError,
     status_response 503 ''c'', status_response 502 ''d'', ok_response (JObj [])]"

definition token_request :: request where
  "token_request = \<lparr>req_method = ''POST'',
     req_url = JStr ''https://login.microsoftonline.com/tenant/oauth2/v2.0/token'',
     req_headers = [],
     req_data = Some [(''grant_type'', Some ''client_credentials''), (''client_id'', Some ''id''),
                      (''client_secret'', Some ''secret''),
                      (''scope'', Some ''https://graph.microsoft.com/.default'')]\<rparr>"

definition page_one :: jvalue where
  "page_one = JObj [(''@odata.context'', JStr ''https://graph.microsoft.com/v1.0/$metadata#users''),
     (''@odata.nextLink'', JStr ''https://graph.microsoft.com/v1.0/users?$skiptoken=X''),
     (''value'', JArr [JStr ''a'', JStr ''b''])]"

definition page_two :: jvalue where
  "page_two = JObj [(''value'', JArr [JStr ''c''])]"

section \<open>Properties\<close>

subsection \<open>The URL builder\<close>

lemma urlparse_graph_base:
  "urlparse BASE_GRAPH_URL = Inr \<lparr>url_scheme = ''https'', url_netloc = ''graph.microsoft.com'',
     url_path = '''', url_params = '''', url_query = '''', url_fragment = ''''\<rparr>"
  by code_simp

lemma join_nonempty:
  "xs \<noteq> [] \<Longrightarrow> list_all (\<lambda>x. x \<noteq> []) xs \<Longrightarrow> join sep xs \<noteq> []"
  by (induction sep xs rule: join.induct) auto

lemma urlencode_empty_iff: "urlencode qs = [] \<longleftrightarrow> qs = []"
proof
  assume e: "urlencode qs = []"
  show "qs = []"
  proof (rule ccontr)
    assume "qs \<noteq> []"
    then have "join ''&'' (map (\<lambda>(k, v). quote_plus k @ ''='' @ quote_plus (str_q v)) qs) \<noteq> []"
      by (intro join_nonempty) (auto simp: list_all_iff)
    with e show False by (simp add: urlencode_def)
  qed
next
  assume "qs = []" then show "urlencode qs = []" by (simp add: urlencode_def)
qed

lemma build_url_graph_base:
  "build_url BASE_GRAPH_URL version pth args
     = Inr (''https://graph.microsoft.com''
            @ (if take 1 (version @ ''/'' @ pth) = ''/'' then '''' else ''/'') @ version @ ''/'' @ pth
            @ (if args = [] then '''' else ''?'' @ join ''&''
                 (map (\<lambda>(k, v). quote_plus k @ ''='' @ quote_plus (str_q v)) args)))"
proof -
  have q: "(urlencode args = []) = (args = [])" by (rule urlencode_empty_iff)
  show ?thesis
    unfolding build_url_def urlparse_graph_base
    using q by (simp add: urlunparse_def urlunsplit_def Let_def urlencode_def)
qed

lemma build_url_graph_nonempty:
  "build_url BASE_GRAPH_URL version pth args = Inr u \<Longrightarrow> u \<noteq> []"
  unfolding build_url_graph_base by auto

lemma join_concat:
  "join sep xs = drop (length sep) (concat (map (\<lambda>x. sep @ x) xs))"
  by (induction sep xs rule: join.induct) simp_all

lemma build_url_graph_query:
  "build_url BASE_GRAPH_URL version pth args
     = Inr (''https://graph.microsoft.com''
            @ (if take 1 (version @ ''/'' @ pth) = ''/'' then '''' else ''/'') @ version @ ''/'' @ pth
            @ (if args = [] then '''' else ''?''
                 @ drop 1 (concat (map (\<lambda>(k, v). ''&'' @ quote_plus k @ ''='' @ quote_plus (str_q v)) args))))"
proof -
  have "join ''&'' (map (\<lambda>(k, v). quote_plus k @ ''='' @ quote_plus (str_q v)) args)
      = drop 1 (concat (map (\<lambda>(k, v). ''&'' @ quote_plus k @ ''='' @ quote_plus (str_q v)) args))"
    unfolding join_concat by (simp add: comp_def case_prod_unfold)
  then show ?thesis unfolding build_url_graph_base by simp
qed

text \<open>
  Claim C9. \<open>build_url\<close> is a function of its four arguments alone (it takes no client
  state and no network), and
  \<^verbatim>\<open>build_url("https://graph.microsoft.com", "v1.0", "users", {"$top": 10})\<close> is exactly
  \<^verbatim>\<open>https://graph.microsoft.com/v1.0/users?%24top=10\<close>. The parameters are url-encoded in
  the iteration order of the mapping: the three parameters \<^verbatim>\<open>$top\<close>, \<^verbatim>\<open>$orderby\<close>,
  \<^verbatim>\<open>$filter\<close> appear in the query in that order, and the same three inserted in the
  opposite order appear in the opposite order. Encoding is that of \<^verbatim>\<open>quote_plus\<close>: a space
  becomes \<^verbatim>\<open>+\<close>, the characters \<^verbatim>\<open>_.-~\<close>, letters and digits stay, every other byte of
  the UTF-8 encoding becomes \<^verbatim>\<open>%XX\<close> (so \<^verbatim>\<open>$ ( ) , / % & = +\<close> and the two bytes of a
  Latin-1 letter are escaped), an integer is written in decimal with its sign, and an
  empty key or value gives an empty side of the \<^verbatim>\<open>=\<close>. An empty mapping gives no question
  mark. On the Graph base URL the result is, for every version, path and parameter list,
  the host followed by \<open>version/path\<close> (with a slash put in front unless it starts with
  one) and, when there are parameters, a question mark and then, for each pair in the
  order of the input, \<^verbatim>\<open>&\<close> (left out before the first pair), the encoded key, \<^verbatim>\<open>=\<close> and
  the encoded value. A base URL with a bracketed IPv6 host is accepted and kept.
\<close>

theorem build_url_graph:
  "build_url ''https://graph.microsoft.com'' ''v1.0'' ''users'' [(''$top'', QInt 10)]
     = Inr ''https://graph.microsoft.com/v1.0/users?%24top=10''
   \<and> build_url ''https://graph.microsoft.com'' ''v1.0'' ''users''
       [(''$top'', QInt 10), (''$orderby'', QStr ''displayName desc''),
        (''$filter'', QStr ''startswith(displayName,A)'')]
     = Inr ''https://graph.microsoft.com/v1.0/users?%24top=10&%24orderby=displayName+desc&%24filter=startswith%28displayName%2CA%29''
   \<and> build_url ''https://graph.microsoft.com'' ''v1.0'' ''users''
       [(''$filter'', QStr ''startswith(displayName,A)''), (''$orderby'', QStr ''displayName desc''),
        (''$top'', QInt 10)]
     = Inr ''https://graph.microsoft.com/v1.0/users?%24filter=startswith%28displayName%2CA%29&%24orderby=displayName+desc&%24top=10''
   \<and> build_url ''https://graph.microsoft.com'' ''beta'' ''teams/1/channels''
       [(''q'', QStr (''caf'' @ [CHR 0xE9] @ '' ~a/b%c&d=e+f'')), (''n'', QInt (- 5)), ('''', QStr '''')]
     = Inr ''https://graph.microsoft.com/beta/teams/1/channels?q=caf%C3%A9+~a%2Fb%25c%26d%3De%2Bf&n=-5&=''
   \<and> build_url ''https://graph.microsoft.com'' ''/v1.0'' ''users''
       [(''a b'', QStr [CHR 0xFF, CHR 0x80, CHR 0x7F, CHR 0x00])]
     = Inr ''https://graph.microsoft.com/v1.0/users?a+b=%C3%BF%C2%80%7F%00''
   \<and> build_url ''https://graph.microsoft.com'' ''v1.0'' ''users'' []
     = Inr ''https://graph.microsoft.com/v1.0/users''
   \<and> build_url ''https://graph.microsoft.com'' '''' '''' [(''k'', QInt 0)]
     = Inr ''https://graph.microsoft.com/?k=0''
   \<and> build_url ''http://[::1]:8080'' ''v1.0'' ''users'' [] = Inr ''http://[::1]:8080/v1.0/users''
   \<and> build_url BASE_GRAPH_URL version pth args
     = Inr (''https://graph.microsoft.com''
            @ (if take 1 (version @ ''/'' @ pth) = ''/'' then '''' else ''/'') @ version @ ''/'' @ pth
            @ (if args = [] then '''' else ''?''
                 @ drop 1 (concat (map (\<lambda>(k, v). ''&'' @ quote_plus k @ ''='' @ quote_plus (str_q v)) args))))"
proof -
  have a: "build_url ''https://graph.microsoft.com'' ''v1.0'' ''users'' [(''$top'', QInt 10)]
     = Inr ''https://graph.microsoft.com/v1.0/users?%24top=10''"
    by code_simp
  have b: "build_url ''https://graph.microsoft.com'' ''v1.0'' ''users''
       [(''$top'', QInt 10), (''$orderby'', QStr ''displayName desc''),
        (''$filter'', QStr ''startswith(displayName,A)'')]
     = Inr ''https://graph.microsoft.com/v1.0/users?%24top=10&%24orderby=displayName+desc&%24filter=startswith%28displayName%2CA%29''"
    by code_simp
  have c: "build_url ''https://graph.microsoft.com'' ''v1.0'' ''users''
       [(''$filter'', QStr ''startswith(displayName,A)''), (''$orderby'', QStr ''displayName desc''),
        (''$top'', QInt 10)]
     = Inr ''https://graph.microsoft.com/v1.0/users?%24filter=startswith%28displayName%2CA%29&%24orderby=displayName+desc&%24top=10''"
    by code_simp
  have d: "build_url ''https://graph.microsoft.com'' ''beta'' ''teams/1/channels''
       [(''q'', QStr (''caf'' @ [CHR 0xE9] @ '' ~a/b%c&d=e+f'')), (''n'', QInt (- 5)), ('''', QStr '''')]
     = Inr ''https://graph.microsoft.com/beta/teams/1/channels?q=caf%C3%A9+~a%2Fb%25c%26d%3De%2Bf&n=-5&=''"
    by code_simp
  have e: "build_url ''https://graph.microsoft.com'' ''/v1.0'' ''users''
       [(''a b'', QStr [CHR 0xFF, CHR 0x80, CHR 0x7F, CHR 0x00])]
     = Inr ''https://graph.microsoft.com/v1.0/users?a+b=%C3%BF%C2%80%7F%00''"
    by code_simp
  have f: "build_url ''https://graph.microsoft.com'' ''v1.0'' ''users'' []
     = Inr ''https://graph.microsoft.com/v1.0/users''"
    by code_simp
  have g: "build_url ''https://graph.microsoft.com'' '''' '''' [(''k'', QInt 0)]
     = Inr ''https://graph.microsoft.com/?k=0''"
    by code_simp
  have h: "build_url ''http://[::1]:8080'' ''v1.0'' ''users'' [] = Inr ''http://[::1]:8080/v1.0/users''"
    by code_simp
  show ?thesis
    by (intro conjI a b c d e f g h build_url_graph_query)
qed

text \<open>
  Claim C10, as stated, fails: two base URLs with the same scheme and the same network
  host give different results when one of them carries a fragment, because \<open>build_url\<close>
  replaces only the path and the query of the parsed base and keeps the rest.
\<close>

theorem build_url_base_fragment_counterexample:
  "urlparse ''https://graph.microsoft.com''
     = Inr \<lparr>url_scheme = ''https'', url_netloc = ''graph.microsoft.com'', url_path = '''',
            url_params = '''', url_query = '''', url_fragment = ''''\<rparr>
   \<and> urlparse ''https://graph.microsoft.com#teams''
     = Inr \<lparr>url_scheme = ''https'', url_netloc = ''graph.microsoft.com'', url_path = '''',
            url_params = '''', url_query = '''', url_fragment = ''teams''\<rparr>
   \<and> build_url ''https://graph.microsoft.com'' ''v1.0'' ''users'' [(''$top'', QInt 10)]
     = Inr ''https://graph.microsoft.com/v1.0/users?%24top=10''
   \<and> build_url ''https://graph.microsoft.com#teams'' ''v1.0'' ''users'' [(''$top'', QInt 10)]
     = Inr ''https://graph.microsoft.com/v1.0/users?%24top=10#teams''"
  by code_simp

text \<open>
  Claim C10, amended. For every pair of base URLs that parse to the same scheme, netloc,
  path parameters and fragment, \<open>build_url\<close> gives the same result for the same version,
  path and params: the path and the query string of the base URL are discarded and
  replaced by \<open>version/path\<close> and the freshly encoded params, while the scheme, the netloc,
  the path parameters and the fragment of the base URL are kept.
\<close>

theorem build_url_replaces_path_and_query:
  assumes "urlparse base1 = Inr p1" and "urlparse base2 = Inr p2"
    and "url_scheme p1 = url_scheme p2" and "url_netloc p1 = url_netloc p2"
    and "url_params p1 = url_params p2" and "url_fragment p1 = url_fragment p2"
  shows "build_url base1 version pth args = build_url base2 version pth args
     \<and> build_url base1 version pth args
       = Inr (urlunparse \<lparr>url_scheme = url_scheme p1, url_netloc = url_netloc p1,
                url_path = version @ ''/'' @ pth, url_params = url_params p1,
                url_query = urlencode args, url_fragment = url_fragment p1\<rparr>)"
proof -
  have form: "build_url b version pth args
       = Inr (urlunparse \<lparr>url_scheme = url_scheme p, url_netloc = url_netloc p,
                url_path = version @ ''/'' @ pth, url_params = url_params p,
                url_query = urlencode args, url_fragment = url_fragment p\<rparr>)"
    if "urlparse b = Inr p" for b p
    using that by (cases p) (simp add: build_url_def)
  show ?thesis
    using form [OF assms(1)] form [OF assms(2)] assms(3-6) by simp
qed

lemma urlparse_example_with_path:
  "urlparse ''https://graph.microsoft.com/beta/me?$select=id''
     = Inr \<lparr>url_scheme = ''https'', url_netloc = ''graph.microsoft.com'', url_path = ''/beta/me'',
            url_params = '''', url_query = ''$select=id'', url_fragment = ''''\<rparr>"
  by code_simp

lemma urlparse_example_upper:
  "urlparse ''HTTPS://graph.microsoft.com''
     = Inr \<lparr>url_scheme = ''https'', url_netloc = ''graph.microsoft.com'', url_path = '''',
            url_params = '''', url_query = '''', url_fragment = ''''\<rparr>"
  by code_simp

text \<open>
  Witness for claim C10, amended: a base URL with a path and a query and a base URL with
  neither (and an upper-case scheme) build the same URL.
\<close>

theorem build_url_replaces_path_and_query_witness:
  "build_url ''https://graph.microsoft.com/beta/me?$select=id'' ''v1.0'' ''users'' [(''$top'', QInt 10)]
     = build_url ''HTTPS://graph.microsoft.com'' ''v1.0'' ''users'' [(''$top'', QInt 10)]
   \<and> build_url ''https://graph.microsoft.com/beta/me?$select=id'' ''v1.0'' ''users'' [(''$top'', QInt 10)]
     = Inr ''https://graph.microsoft.com/v1.0/users?%24top=10''"
proof -
  let ?pa = "\<lparr>url_scheme = ''https'', url_netloc = ''graph.microsoft.com'', url_path = ''/beta/me'',
            url_params = '''', url_query = ''$select=id'', url_fragment = ''''\<rparr>"
  let ?pb = "\<lparr>url_scheme = ''https'', url_netloc = ''graph.microsoft.com'', url_path = '''',
            url_params = '''', url_query = '''', url_fragment = ''''\<rparr>"
  have h: "url_scheme ?pa = url_scheme ?pb" "url_netloc ?pa = url_netloc ?pb"
    "url_params ?pa = url_params ?pb" "url_fragment ?pa = url_fragment ?pb"
    by simp_all
  have r: "urlunparse \<lparr>url_scheme = url_scheme ?pa, url_netloc = url_netloc ?pa,
                url_path = ''v1.0'' @ ''/'' @ ''users'', url_params = url_params ?pa,
                url_query = urlencode [(''$top'', QInt 10)], url_fragment = url_fragment ?pa\<rparr>
      = ''https://graph.microsoft.com/v1.0/users?%24top=10''"
    by code_simp
  show ?thesis
    by (rule build_url_replaces_path_and_query
          [OF urlparse_example_with_path urlparse_example_upper h,
           of "''v1.0''" "''users''" "[(''$top'', QInt 10)]", unfolded r])
qed

subsection \<open>One request\<close>

lemma retry_exception_returns:
  "target s = Some (Inr v, s1) \<Longrightarrow> retry_exception factor is_exc left n target s = Some (Inr v, s1)"
  by (cases left) simp_all

lemma retry_exception_gives_up:
  "target s = Some (Inl e, s1) \<Longrightarrow> \<not> is_exc e
     \<Longrightarrow> retry_exception factor is_exc left n target s = Some (Inl e, s1)"
  by (cases left) simp_all

lemma undecorated_unsupported:
  "meth \<noteq> ''GET'' \<Longrightarrow> meth \<noteq> ''POST''
     \<Longrightarrow> make_request_undecorated lg cfg net meth url params data s
         = Some (Inl (Exception ''Unsupported HTTP method''), s)"
  by (simp add: make_request_undecorated_def)

lemma undecorated_raises:
  assumes "meth = ''GET'' \<or> meth = ''POST''"
    and "req = \<lparr>req_method = meth, req_url = url,
                 req_headers = (if meth = ''GET'' then make_headers cfg s else []),
                 req_data = (if meth = ''GET'' then None else data)\<rparr>"
    and "net (sent s) req = Raises e"
  shows "make_request_undecorated lg cfg net meth url params data s
           = Some (Inl e, s\<lparr>sent := sent s @ [req]\<rparr>)"
  using assms(1)
proof
  assume "meth = ''GET''"
  with assms(3) show ?thesis
    unfolding assms(2) by (simp add: make_request_undecorated_def session_send_def)
next
  assume "meth = ''POST''"
  with assms(3) show ?thesis
    unfolding assms(2) by (simp add: make_request_undecorated_def session_send_def)
qed

lemma undecorated_responds:
  assumes "meth = ''GET'' \<or> meth = ''POST''"
    and "req = \<lparr>req_method = meth, req_url = url,
                 req_headers = (if meth = ''GET'' then make_headers cfg s else []),
                 req_data = (if meth = ''GET'' then None else data)\<rparr>"
    and "net (sent s) req = Responds r"
  shows "make_request_undecorated lg cfg net meth url params data s
     = (case (if status_code r = 401 then lg (s\<lparr>sent := sent s @ [req]\<rparr>)
              else if status_code r = 429
                then Some (Inl Server42xRateLimitError, s\<lparr>sent := sent s @ [req]\<rparr>)
              else if status_code r \<ge> 500
                then Some (Inl Server5xxError, s\<lparr>sent := sent s @ [req]\<rparr>)
              else Some (Inr (), s\<lparr>sent := sent s @ [req]\<rparr>)) of
          None \<Rightarrow> None
        | Some (Inl e, s2) \<Rightarrow> Some (Inl e, s2)
        | Some (Inr u, s2) \<Rightarrow>
            if status_code r \<notin> {200, 201, 202}
            then Some (Inl (RuntimeError (response_text r)), s2)
            else (case response_json r of
                    None \<Rightarrow> Some (Inl JSONDecodeError, s2)
                  | Some v \<Rightarrow> Some (Inr v, s2)))"
  using assms(1)
proof
  assume "meth = ''GET''"
  with assms(3) show ?thesis
    unfolding assms(2) by (simp add: make_request_undecorated_def session_send_def Let_def)
next
  assume "meth = ''POST''"
  with assms(3) show ?thesis
    unfolding assms(2) by (simp add: make_request_undecorated_def session_send_def Let_def)
qed

lemma undecorated_unexpected_status:
  assumes "meth = ''GET'' \<or> meth = ''POST''"
    and "req = \<lparr>req_method = meth, req_url = url,
                 req_headers = (if meth = ''GET'' then make_headers cfg s else []),
                 req_data = (if meth = ''GET'' then None else data)\<rparr>"
    and "net (sent s) req = Responds r"
    and "status_code r \<notin> {200, 201, 202}" and "status_code r \<noteq> 401"
    and "status_code r \<noteq> 429" and "status_code r < 500"
  shows "make_request_undecorated lg cfg net meth url params data s
           = Some (Inl (RuntimeError (response_text r)), s\<lparr>sent := sent s @ [req]\<rparr>)"
  unfolding undecorated_responds [where net = net and lg = lg and params = params, OF assms(1-3)] using assms(4-7) by simp

lemma undecorated_success:
  assumes "meth = ''GET'' \<or> meth = ''POST''"
    and "req = \<lparr>req_method = meth, req_url = url,
                 req_headers = (if meth = ''GET'' then make_headers cfg s else []),
                 req_data = (if meth = ''GET'' then None else data)\<rparr>"
    and "net (sent s) req = Responds r"
    and "status_code r \<in> {200, 201, 202}" and "response_json r = Some v"
  shows "make_request_undecorated lg cfg net meth url params data s
           = Some (Inr v, s\<lparr>sent := sent s @ [req]\<rparr>)"
  unfolding undecorated_responds [where net = net and lg = lg and params = params, OF assms(1-3)] using assms(4-5) by auto

lemma undecorated_unauthorized:
  assumes "meth = ''GET'' \<or> meth = ''POST''"
    and "req = \<lparr>req_method = meth, req_url = url,
                 req_headers = (if meth = ''GET'' then make_headers cfg s else []),
                 req_data = (if meth = ''GET'' then None else data)\<rparr>"
    and "net (sent s) req = Responds r"
    and "status_code r = 401"
  shows "make_request_undecorated lg cfg net meth url params data s
           = (case lg (s\<lparr>sent := sent s @ [req]\<rparr>) of
                None \<Rightarrow> None
              | Some (Inl e, s2) \<Rightarrow> Some (Inl e, s2)
              | Some (Inr u, s2) \<Rightarrow> Some (Inl (RuntimeError (response_text r)), s2))"
  unfolding undecorated_responds [where net = net and lg = lg and params = params, OF assms(1-3)] using assms(4)
  by (simp split: option.split sum.split prod.split)

lemma make_headers_cong [simp]:
  "make_headers cfg (s\<lparr>sent := x\<rparr>) = make_headers cfg s"
  "make_headers cfg (s\<lparr>waits := y\<rparr>) = make_headers cfg s"
  "make_headers cfg (s\<lparr>timers := z\<rparr>) = make_headers cfg s"
  by (simp_all add: make_headers_def)

lemma transient_error_retryable: "transient_error out = Some e \<Longrightarrow> retryable e"
  by (cases out) (auto simp: retryable_def split: if_splits)

lemma undecorated_transient:
  assumes "meth = ''GET'' \<or> meth = ''POST''"
    and "req = \<lparr>req_method = meth, req_url = url,
                 req_headers = (if meth = ''GET'' then make_headers cfg s else []),
                 req_data = (if meth = ''GET'' then None else data)\<rparr>"
    and "transient_error (net (sent s) req) = Some e"
  shows "make_request_undecorated lg cfg net meth url params data s
           = Some (Inl e, s\<lparr>sent := sent s @ [req]\<rparr>)"
proof (cases "net (sent s) req")
  case (Raises e')
  with assms(3) have "e' = e" by (simp split: if_splits)
  with Raises show ?thesis
    using undecorated_raises [where net = net, OF assms(1,2)] by simp
next
  case (Responds r)
  with assms(3) have st: "status_code r \<noteq> 401"
    and e: "e = (if status_code r = 429 then Server42xRateLimitError else Server5xxError)"
    and c: "status_code r = 429 \<or> status_code r \<ge> 500"
    by (auto split: if_splits)
  show ?thesis
    unfolding undecorated_responds [where net = net and lg = lg and params = params,
        OF assms(1,2) Responds]
    using st e c by auto
qed

lemma retry_all_transient:
  assumes "meth = ''GET'' \<or> meth = ''POST''"
    and "req = \<lparr>req_method = meth, req_url = url,
                 req_headers = (if meth = ''GET'' then make_headers cfg s else []),
                 req_data = (if meth = ''GET'' then None else data)\<rparr>"
    and "\<And>i. i < k \<Longrightarrow> transient_error (net (sent s @ replicate i req) req) \<noteq> None"
    and "transient_error (net (sent s @ replicate k req) req) = Some e"
  shows "retry_exception factor retryable k n
           (make_request_undecorated lg cfg net meth url params data) s
         = Some (Inl e, s\<lparr>sent := sent s @ replicate (Suc k) req,
                            waits := waits s @ map (expo factor) [n..<n + k]\<rparr>)"
  using assms(2-4)
proof (induction k arbitrary: s n)
  case 0
  then show ?case
    using undecorated_transient [where net = net, OF assms(1)] by simp
next
  case (Suc k)
  from Suc.prems(2) [of 0] obtain e0 where e0: "transient_error (net (sent s) req) = Some e0"
    by auto
  let ?s1 = "s\<lparr>sent := sent s @ [req]\<rparr>"
  let ?s2 = "?s1\<lparr>waits := waits ?s1 @ [expo factor n]\<rparr>"
  have first: "make_request_undecorated lg cfg net meth url params data s = Some (Inl e0, ?s1)"
    using undecorated_transient [where net = net, OF assms(1) Suc.prems(1) e0] .
  have req2: "req = \<lparr>req_method = meth, req_url = url,
                 req_headers = (if meth = ''GET'' then make_headers cfg ?s2 else []),
                 req_data = (if meth = ''GET'' then None else data)\<rparr>"
    using Suc.prems(1) by simp
  have hist: "sent ?s2 @ replicate i req = sent s @ replicate (Suc i) req" for i
    by (simp add: replicate_app_Cons_same)
  have rest: "retry_exception factor retryable k (Suc n)
           (make_request_undecorated lg cfg net meth url params data) ?s2
         = Some (Inl e, ?s2\<lparr>sent := sent ?s2 @ replicate (Suc k) req,
                            waits := waits ?s2 @ map (expo factor) [Suc n..<Suc n + k]\<rparr>)"
  proof (rule Suc.IH [OF req2])
    fix i assume "i < k"
    then show "transient_error (net (sent ?s2 @ replicate i req) req) \<noteq> None"
      unfolding hist using Suc.prems(2) [of "Suc i"] by simp
  next
    show "transient_error (net (sent ?s2 @ replicate k req) req) = Some e"
      unfolding hist using Suc.prems(3) .
  qed
  have fin: "?s2\<lparr>sent := sent ?s2 @ replicate (Suc k) req,
                 waits := waits ?s2 @ map (expo factor) [Suc n..<Suc n + k]\<rparr>
             = s\<lparr>sent := sent s @ replicate (Suc (Suc k)) req,
                  waits := waits s @ map (expo factor) [n..<n + Suc k]\<rparr>"
    by (simp add: upt_conv_Cons del: upt_Suc)
  show ?case
    using first rest transient_error_retryable [OF e0] unfolding fin by simp
qed

lemma undecorated_state_cases:
  assumes "make_request_undecorated lg cfg net meth url params data s = Some (res, s')"
  shows "s' = s
     \<or> (\<exists>req. req_method req = meth \<and> (meth = ''GET'' \<or> meth = ''POST'')
            \<and> (s' = s\<lparr>sent := sent s @ [req]\<rparr>
                \<or> (\<exists>res'. lg (s\<lparr>sent := sent s @ [req]\<rparr>) = Some (res', s'))))"
proof (cases "meth = ''GET'' \<or> meth = ''POST''")
  case False
  then show ?thesis using assms by (simp add: undecorated_unsupported)
next
  case True
  define req where "req = \<lparr>req_method = meth, req_url = url,
                 req_headers = (if meth = ''GET'' then make_headers cfg s else []),
                 req_data = (if meth = ''GET'' then None else data)\<rparr>"
  have m: "req_method req = meth" by (simp add: req_def)
  show ?thesis
  proof (cases "net (sent s) req")
    case (Raises e)
    have "s' = s\<lparr>sent := sent s @ [req]\<rparr>"
      using assms undecorated_raises [where net = net, OF True req_def Raises] by simp
    with m True show ?thesis by blast
  next
    case (Responds r)
    note u = undecorated_responds [where net = net and lg = lg and params = params,
        OF True req_def Responds]
    show ?thesis
    proof (cases "status_code r = 401")
      case True
      with assms u obtain res' where "lg (s\<lparr>sent := sent s @ [req]\<rparr>) = Some (res', s')"
        by (auto split: option.splits sum.splits if_splits)
      with m \<open>meth = ''GET'' \<or> meth = ''POST''\<close> show ?thesis by blast
    next
      case False
      with assms u have "s' = s\<lparr>sent := sent s @ [req]\<rparr>"
        by (auto split: option.splits sum.splits if_splits)
      with m True show ?thesis by blast
    qed
  qed
qed

lemma retry_exception_rel:
  assumes "retry_exception factor is_exc k n target s = Some (res, s')"
    and step: "\<And>s res s'. target s = Some (res, s') \<Longrightarrow> R s s'"
    and sleep: "\<And>s w. R s (s\<lparr>waits := waits s @ [w]\<rparr>)"
    and trans: "\<And>a b c. R a b \<Longrightarrow> R b c \<Longrightarrow> R a c"
  shows "R s s'"
  using assms(1)
proof (induction k arbitrary: s n)
  case 0
  then show ?case using step by simp
next
  case (Suc k)
  from Suc.prems obtain r1 s1 where t: "target s = Some (r1, s1)"
    by (cases "target s") auto
  show ?case
  proof (cases r1)
    case (Inr v)
    with Suc.prems t have "s' = s1" by simp
    with step [OF t] show ?thesis by simp
  next
    case (Inl e)
    show ?thesis
    proof (cases "is_exc e")
      case False
      with Suc.prems t Inl have "s' = s1" by simp
      with step [OF t] show ?thesis by simp
    next
      case True
      with Suc.prems t Inl
      have "retry_exception factor is_exc k (Suc n) target
              (s1\<lparr>waits := waits s1 @ [expo factor n]\<rparr>) = Some (res, s')"
        by simp
      from Suc.IH [OF this] have "R (s1\<lparr>waits := waits s1 @ [expo factor n]\<rparr>) s'" .
      with step [OF t] sleep [of s1] show ?thesis by (blast intro: trans)
    qed
  qed
qed

lemma retry_exception_count:
  fixes G :: "request list \<Rightarrow> nat"
  assumes "retry_exception factor is_exc k n target s = Some (res, s')"
    and step: "\<And>s res s'. target s = Some (res, s') \<Longrightarrow> G (sent s') \<le> G (sent s) + 1"
  shows "G (sent s') \<le> G (sent s) + Suc k"
  using assms(1)
proof (induction k arbitrary: s n)
  case 0
  then show ?case using step by simp
next
  case (Suc k)
  from Suc.prems obtain r1 s1 where t: "target s = Some (r1, s1)"
    by (cases "target s") auto
  show ?case
  proof (cases r1)
    case (Inr v)
    with Suc.prems t have "s' = s1" by simp
    with step [OF t] show ?thesis by simp
  next
    case (Inl e)
    show ?thesis
    proof (cases "is_exc e")
      case False
      with Suc.prems t Inl have "s' = s1" by simp
      with step [OF t] show ?thesis by simp
    next
      case True
      with Suc.prems t Inl
      have "retry_exception factor is_exc k (Suc n) target
              (s1\<lparr>waits := waits s1 @ [expo factor n]\<rparr>) = Some (res, s')"
        by simp
      from Suc.IH [OF this] have "G (sent s') \<le> G (sent s1) + Suc k" by simp
      with step [OF t] show ?thesis by simp
    qed
  qed
qed

lemma login_sends_no_get:
  "login fuel cfg net s = Some (res, s')
     \<Longrightarrow> filter (\<lambda>q. req_method q = ''GET'') (sent s') = filter (\<lambda>q. req_method q = ''GET'') (sent s)"
proof (induction fuel arbitrary: s res s')
  case 0
  then show ?case by simp
next
  case (Suc fuel)
  let ?R = "\<lambda>a b. filter (\<lambda>q. req_method q = ''GET'') (sent b)
                     = filter (\<lambda>q. req_method q = ''GET'') (sent a)"
  define s1 where "s1 = s\<lparr>client_id := cfg_client_id cfg, client_secret := cfg_client_secret cfg,
                  tenant_id := cfg_tenant_id cfg\<rparr>"
  have attempt: "?R a b"
    if "make_request_undecorated (login fuel cfg net) cfg net ''POST'' u p d a = Some (r, b)"
    for a b r u p d
    using undecorated_state_cases [OF that] Suc.IH by auto
  have req: "?R a b"
    if "make_request_with (login fuel cfg net) cfg net ''POST'' u p d a = Some (r, b)"
    for a b r u p d
    using that unfolding make_request_with_def on_exception_def
    by (rule retry_exception_rel) (use attempt in auto)
  from Suc.prems obtain r2 s2 where
    m: "make_request_with (login fuel cfg net) cfg net ''POST''
          (JStr (TOKEN_URL (tenant_id s1))) None
          (Some [(''grant_type'', Some ''client_credentials''), (''client_id'', client_id s1),
                 (''client_secret'', client_secret s1), (''scope'', Some SCOPE)]) s1 = Some (r2, s2)"
    and s': "sent s' = sent s2"
    by (auto simp: s1_def Let_def arm_timer_def split: option.splits sum.splits jvalue.splits)
  from req [OF m] s' show ?case by (simp add: s1_def)
qed



lemma make_request_gives_up:
  "make_request_undecorated (login fuel cfg net) cfg net meth url params data s = Some (Inl e, s1)
     \<Longrightarrow> \<not> retryable e
     \<Longrightarrow> make_request fuel cfg net meth url params data s = Some (Inl e, s1)"
  unfolding make_request_def make_request_with_def on_exception_def
  by (rule retry_exception_gives_up)

lemma make_request_returns:
  "make_request_undecorated (login fuel cfg net) cfg net meth url params data s = Some (Inr v, s1)
     \<Longrightarrow> make_request fuel cfg net meth url params data s = Some (Inr v, s1)"
  unfolding make_request_def make_request_with_def on_exception_def
  by (rule retry_exception_returns)

lemma make_request_unexpected_status:
  assumes "meth = ''GET'' \<or> meth = ''POST''"
    and "req = \<lparr>req_method = meth, req_url = url,
                 req_headers = (if meth = ''GET'' then make_headers cfg s else []),
                 req_data = (if meth = ''GET'' then None else data)\<rparr>"
    and "net (sent s) req = Responds r"
    and "status_code r \<notin> {200, 201, 202}" and "status_code r \<noteq> 401"
    and "status_code r \<noteq> 429" and "status_code r < 500"
  shows "make_request fuel cfg net meth url params data s
           = Some (Inl (RuntimeError (response_text r)), s\<lparr>sent := sent s @ [req]\<rparr>)"
  by (rule make_request_gives_up)
     (simp_all add: undecorated_unexpected_status [where net = net, OF assms] retryable_def)

text \<open>
  A 401 whose re-login succeeds still ends the call: the status test after the
  classification raises \<open>RuntimeError\<close>, which the decorator does not retry.
\<close>

lemma make_request_unauthorized_is_fatal:
  assumes "meth = ''GET'' \<or> meth = ''POST''"
    and "req = \<lparr>req_method = meth, req_url = url,
                 req_headers = (if meth = ''GET'' then make_headers cfg s else []),
                 req_data = (if meth = ''GET'' then None else data)\<rparr>"
    and "net (sent s) req = Responds r"
    and "status_code r = 401"
    and "login fuel cfg net (s\<lparr>sent := sent s @ [req]\<rparr>) = Some (Inr u, s2)"
  shows "make_request fuel cfg net meth url params data s
           = Some (Inl (RuntimeError (response_text r)), s2)"
  by (rule make_request_gives_up)
     (simp_all add: undecorated_unauthorized [where net = net, OF assms(1-4)] assms(5)
        retryable_def)

lemma make_request_get_count:
  assumes "make_request fuel cfg net ''GET'' url params data s = Some (res, s')"
  shows "length (filter (\<lambda>q. req_method q = ''GET'') (sent s'))
           \<le> length (filter (\<lambda>q. req_method q = ''GET'') (sent s)) + 5"
proof -
  let ?G = "\<lambda>qs. length (filter (\<lambda>q. req_method q = ''GET'') qs)"
  have attempt: "?G (sent b) \<le> ?G (sent a) + 1"
    if "make_request_undecorated (login fuel cfg net) cfg net ''GET'' url params data a = Some (r, b)"
    for a b r
  proof -
    from undecorated_state_cases [OF that]
    consider "b = a" | req where "b = a\<lparr>sent := sent a @ [req]\<rparr>"
      | req res' where "login fuel cfg net (a\<lparr>sent := sent a @ [req]\<rparr>) = Some (res', b)"
      by blast
    then show ?thesis
    proof cases
      case 1 then show ?thesis by simp
    next
      case 2 then show ?thesis by simp
    next
      case 3 from login_sends_no_get [OF this] show ?thesis by simp
    qed
  qed
  have "?G (sent s') \<le> ?G (sent s) + Suc 4"
    using assms unfolding make_request_def make_request_with_def on_exception_def
    by (simp only: diff_Suc_1 numeral_eq_Suc pred_numeral_simps)
       (rule retry_exception_count, assumption, rule attempt)
  then show ?thesis by simp
qed

lemma new_client_fields:
  "access_token new_client = JNull" "sent new_client = []" "timers new_client = []"
  "waits new_client = []" "login_timer new_client = None"
  by (simp_all add: new_client_def)

lemma example_headers:
  "make_headers example_config (new_client\<lparr>access_token := tok\<rparr>)
     = [(''Authorization'', Bearer tok), (''User-Agent'', Plain ''tap'')]"
  "make_headers example_config new_client
     = [(''Authorization'', Bearer JNull), (''User-Agent'', Plain ''tap'')]"
  by (simp_all add: make_headers_def example_config_def new_client_def)


text \<open>
  Claim C7. \<^verbatim>\<open>make_request\<close> fails at once, without any retry, in the two unclassified
  cases: a method that is neither GET nor POST raises before any request is sent (the
  state, with its log of requests and waits, is unchanged); and a response whose status is
  outside 200, 201, 202 and is not 401, not 429 and below 500 raises \<open>RuntimeError\<close> with
  the raw response text, after that single request and without any wait.
\<close>

theorem make_request_fatal_cases:
  "(meth \<noteq> ''GET'' \<and> meth \<noteq> ''POST''
      \<longrightarrow> make_request fuel cfg net meth url params data s
            = Some (Inl (Exception ''Unsupported HTTP method''), s))
   \<and> ((meth = ''GET'' \<or> meth = ''POST'')
        \<and> req = \<lparr>req_method = meth, req_url = url,
                   req_headers = (if meth = ''GET'' then make_headers cfg s else []),
                   req_data = (if meth = ''GET'' then None else data)\<rparr>
        \<and> net (sent s) req = Responds r
        \<and> status_code r \<notin> {200, 201, 202} \<and> status_code r \<noteq> 401
        \<and> status_code r \<noteq> 429 \<and> status_code r < 500
      \<longrightarrow> make_request fuel cfg net meth url params data s
            = Some (Inl (RuntimeError (response_text r)), s\<lparr>sent := sent s @ [req]\<rparr>))"
proof (intro conjI impI)
  assume "meth \<noteq> ''GET'' \<and> meth \<noteq> ''POST''"
  then have "make_request_undecorated (login fuel cfg net) cfg net meth url params data s
               = Some (Inl (Exception ''Unsupported HTTP method''), s)"
    by (simp add: undecorated_unsupported)
  then show "make_request fuel cfg net meth url params data s
               = Some (Inl (Exception ''Unsupported HTTP method''), s)"
    by (rule make_request_gives_up) (simp add: retryable_def)
next
  assume a: "(meth = ''GET'' \<or> meth = ''POST'')
        \<and> req = \<lparr>req_method = meth, req_url = url,
                   req_headers = (if meth = ''GET'' then make_headers cfg s else []),
                   req_data = (if meth = ''GET'' then None else data)\<rparr>
        \<and> net (sent s) req = Responds r
        \<and> status_code r \<notin> {200, 201, 202} \<and> status_code r \<noteq> 401
        \<and> status_code r \<noteq> 429 \<and> status_code r < 500"
  then have m: "meth = ''GET'' \<or> meth = ''POST''"
    and q: "req = \<lparr>req_method = meth, req_url = url,
                  req_headers = (if meth = ''GET'' then make_headers cfg s else []),
                  req_data = (if meth = ''GET'' then None else data)\<rparr>"
    and n: "net (sent s) req = Responds r"
    and st: "status_code r \<notin> {200, 201, 202}" "status_code r \<noteq> 401"
      "status_code r \<noteq> 429" "status_code r < 500"
    by blast+
  show "make_request fuel cfg net meth url params data s
           = Some (Inl (RuntimeError (response_text r)), s\<lparr>sent := sent s @ [req]\<rparr>)"
    by (rule make_request_unexpected_status [where net = net, OF m q n st])
qed

text \<open>
  Witness for claim C7: a DELETE leaves the fresh client as it is, and status 418 raises
  with the response text after one request.
\<close>

theorem make_request_fatal_cases_witness:
  "make_request 0 example_config (scripted []) ''DELETE'' example_url None None new_client
     = Some (Inl (Exception ''Unsupported HTTP method''), new_client)
   \<and> make_request 0 example_config (scripted [status_response 418 ''teapot'']) ''GET''
       example_url None None new_client
     = Some (Inl (RuntimeError ''teapot''), new_client\<lparr>sent := [example_get]\<rparr>)"
proof
  show "make_request 0 example_config (scripted []) ''DELETE'' example_url None None new_client
     = Some (Inl (Exception ''Unsupported HTTP method''), new_client)"
    using make_request_fatal_cases [THEN conjunct1, of "''DELETE''"] by simp
next
  show "make_request 0 example_config (scripted [status_response 418 ''teapot'']) ''GET''
       example_url None None new_client
     = Some (Inl (RuntimeError ''teapot''), new_client\<lparr>sent := [example_get]\<rparr>)"
    using make_request_fatal_cases [where meth = "''GET''" and req = example_get
        and net = "scripted [status_response 418 ''teapot'']" and s = new_client
        and cfg = example_config and url = example_url and fuel = 0 and params = None and data = None
        and r = "\<lparr>status_code = 418, response_text = ''teapot'', response_json = None\<rparr>",
        THEN conjunct2]
    by (simp add: example_headers(2) scripted_def example_get_def status_response_def
          new_client_fields)
qed

text \<open>
  The retry loop as the decorator configures it. An attempt that raises an exception outside
  the three listed classes is the result of the call as it is; a response with a 4xx status
  other than 401 and 429 ends the call with \<open>RuntimeError\<close> after that single request;
  when every attempt meets an outcome of the listed kind, exactly five requests are sent,
  the values 2, 4, 8, 16 are drawn for the waits and the fifth error is raised; and a GET
  call never sends more than five GET requests.
\<close>

lemma make_request_retry_policy:
  "(make_request_undecorated (login fuel cfg net) cfg net meth url params data s = Some (Inl e, s1)
      \<and> e \<noteq> Server5xxError \<and> e \<noteq> ConnectionError \<and> e \<noteq> Server42xRateLimitError
     \<longrightarrow> make_request fuel cfg net meth url params data s = Some (Inl e, s1))
   \<and> ((meth = ''GET'' \<or> meth = ''POST'')
       \<and> req = \<lparr>req_method = meth, req_url = url,
                  req_headers = (if meth = ''GET'' then make_headers cfg s else []),
                  req_data = (if meth = ''GET'' then None else data)\<rparr>
       \<and> net (sent s) req = Responds r
       \<and> 400 \<le> status_code r \<and> status_code r < 500
       \<and> status_code r \<noteq> 401 \<and> status_code r \<noteq> 429
     \<longrightarrow> make_request fuel cfg net meth url params data s
           = Some (Inl (RuntimeError (response_text r)), s\<lparr>sent := sent s @ [req]\<rparr>))
   \<and> ((meth = ''GET'' \<or> meth = ''POST'')
       \<and> req = \<lparr>req_method = meth, req_url = url,
                  req_headers = (if meth = ''GET'' then make_headers cfg s else []),
                  req_data = (if meth = ''GET'' then None else data)\<rparr>
       \<and> (\<forall>i<4. transient_error (net (sent s @ replicate i req) req) \<noteq> None)
       \<and> transient_error (net (sent s @ replicate 4 req) req) = Some e'
     \<longrightarrow> make_request fuel cfg net meth url params data s
           = Some (Inl e', s\<lparr>sent := sent s @ replicate 5 req, waits := waits s @ [2, 4, 8, 16]\<rparr>))
   \<and> (make_request fuel cfg net ''GET'' url params data s = Some (res, s')
     \<longrightarrow> length (filter (\<lambda>q. req_method q = ''GET'') (sent s'))
           \<le> length (filter (\<lambda>q. req_method q = ''GET'') (sent s)) + 5)"
proof (intro conjI impI)
  assume "make_request_undecorated (login fuel cfg net) cfg net meth url params data s = Some (Inl e, s1)
      \<and> e \<noteq> Server5xxError \<and> e \<noteq> ConnectionError \<and> e \<noteq> Server42xRateLimitError"
  then show "make_request fuel cfg net meth url params data s = Some (Inl e, s1)"
    by (intro make_request_gives_up) (simp_all add: retryable_def)
next
  assume a: "(meth = ''GET'' \<or> meth = ''POST'')
       \<and> req = \<lparr>req_method = meth, req_url = url,
                  req_headers = (if meth = ''GET'' then make_headers cfg s else []),
                  req_data = (if meth = ''GET'' then None else data)\<rparr>
       \<and> net (sent s) req = Responds r
       \<and> 400 \<le> status_code r \<and> status_code r < 500
       \<and> status_code r \<noteq> 401 \<and> status_code r \<noteq> 429"
  then have m: "meth = ''GET'' \<or> meth = ''POST''"
    and q: "req = \<lparr>req_method = meth, req_url = url,
                  req_headers = (if meth = ''GET'' then make_headers cfg s else []),
                  req_data = (if meth = ''GET'' then None else data)\<rparr>"
    and n: "net (sent s) req = Responds r"
    and st: "status_code r \<notin> {200, 201, 202}" "status_code r \<noteq> 401"
      "status_code r \<noteq> 429" "status_code r < 500"
    by (blast, blast, blast, auto)
  show "make_request fuel cfg net meth url params data s
           = Some (Inl (RuntimeError (response_text r)), s\<lparr>sent := sent s @ [req]\<rparr>)"
    by (rule make_request_unexpected_status [where net = net, OF m q n st])
next
  assume a: "(meth = ''GET'' \<or> meth = ''POST'')
       \<and> req = \<lparr>req_method = meth, req_url = url,
                  req_headers = (if meth = ''GET'' then make_headers cfg s else []),
                  req_data = (if meth = ''GET'' then None else data)\<rparr>
       \<and> (\<forall>i<4. transient_error (net (sent s @ replicate i req) req) \<noteq> None)
       \<and> transient_error (net (sent s @ replicate 4 req) req) = Some e'"
  then have m: "meth = ''GET'' \<or> meth = ''POST''"
    and q: "req = \<lparr>req_method = meth, req_url = url,
                  req_headers = (if meth = ''GET'' then make_headers cfg s else []),
                  req_data = (if meth = ''GET'' then None else data)\<rparr>"
    and t0: "\<forall>i<4. transient_error (net (sent s @ replicate i req) req) \<noteq> None"
    and l: "transient_error (net (sent s @ replicate 4 req) req) = Some e'"
    by blast+
  from t0 have t: "\<And>i. i < 4 \<Longrightarrow> transient_error (net (sent s @ replicate i req) req) \<noteq> None"
    by blast
  have up: "map (expo 2) [0..<0 + 4] = [2, 4, 8, 16]"
    by (simp add: expo_def upt_rec)
  have "retry_exception 2 retryable 4 0
           (make_request_undecorated (login fuel cfg net) cfg net meth url params data) s
         = Some (Inl e', s\<lparr>sent := sent s @ replicate (Suc 4) req,
                            waits := waits s @ map (expo 2) [0..<0 + 4]\<rparr>)"
    by (rule retry_all_transient [where net = net, OF m q t l])
  then show "make_request fuel cfg net meth url params data s
           = Some (Inl e', s\<lparr>sent := sent s @ replicate 5 req, waits := waits s @ [2, 4, 8, 16]\<rparr>)"
    unfolding up make_request_def make_request_with_def on_exception_def
    by (simp add: numeral_eq_Suc)
next
  assume "make_request fuel cfg net ''GET'' url params data s = Some (res, s')"
  then show "length (filter (\<lambda>q. req_method q = ''GET'') (sent s'))
           \<le> length (filter (\<lambda>q. req_method q = ''GET'') (sent s)) + 5"
    by (rule make_request_get_count)
qed

text \<open>
  Instances: an exception outside the list and a 404 end the call after one request; a
  script of five outcomes of the listed kind (followed by a success that is never reached)
  is tried exactly five times.
\<close>

lemma make_request_retry_policy_example:
  "make_request 0 example_config (scripted [Raises (RequestException ''timeout'')]) ''GET''
       example_url None None new_client
     = Some (Inl (RequestException ''timeout''), new_client\<lparr>sent := [example_get]\<rparr>)
   \<and> make_request 0 example_config (scripted [status_response 404 ''not found'']) ''GET''
       example_url None None new_client
     = Some (Inl (RuntimeError ''not found''), new_client\<lparr>sent := [example_get]\<rparr>)
   \<and> make_request 0 example_config (scripted failing_script) ''GET'' example_url None None new_client
     = Some (Inl Server5xxError,
             new_client\<lparr>sent := replicate 5 example_get, waits := [2, 4, 8, 16]\<rparr>)
   \<and> length (filter (\<lambda>q. req_method q = ''GET'')
              (sent (new_client\<lparr>sent := replicate 5 example_get, waits := [2, 4, 8, 16]\<rparr>)))
       \<le> length (filter (\<lambda>q. req_method q = ''GET'') (sent new_client)) + 5"
proof -
  note hdr = example_headers(2)
  have u: "make_request_undecorated (login 0 example_config
              (scripted [Raises (RequestException ''timeout'')])) example_config
              (scripted [Raises (RequestException ''timeout'')]) ''GET'' example_url None None new_client
           = Some (Inl (RequestException ''timeout''), new_client\<lparr>sent := [example_get]\<rparr>)"
    by (simp add: make_request_undecorated_def session_send_def hdr scripted_def example_get_def
          new_client_fields)
  have a: "make_request 0 example_config (scripted [Raises (RequestException ''timeout'')]) ''GET''
       example_url None None new_client
     = Some (Inl (RequestException ''timeout''), new_client\<lparr>sent := [example_get]\<rparr>)"
    using make_request_retry_policy [THEN conjunct1, rule_format, OF conjI [OF u]] by simp
  have b: "make_request 0 example_config (scripted [status_response 404 ''not found'']) ''GET''
       example_url None None new_client
     = Some (Inl (RuntimeError ''not found''), new_client\<lparr>sent := [example_get]\<rparr>)"
    using make_request_retry_policy [where meth = "''GET''" and req = example_get
        and net = "scripted [status_response 404 ''not found'']" and s = new_client
        and cfg = example_config and url = example_url and fuel = 0 and params = None and data = None
        and r = "\<lparr>status_code = 404, response_text = ''not found'', response_json = None\<rparr>",
        THEN conjunct2, THEN conjunct1]
    by (simp add: hdr scripted_def example_get_def status_response_def new_client_fields)
  have c: "make_request 0 example_config (scripted failing_script) ''GET'' example_url None None new_client
     = Some (Inl Server5xxError,
             new_client\<lparr>sent := replicate 5 example_get, waits := [2, 4, 8, 16]\<rparr>)"
    using make_request_retry_policy [where meth = "''GET''" and req = example_get
        and net = "scripted failing_script" and s = new_client and e' = Server5xxError
        and cfg = example_config and url = example_url and fuel = 0 and params = None and data = None,
        THEN conjunct2, THEN conjunct2, THEN conjunct1]
    by (simp add: hdr scripted_def example_get_def status_response_def new_client_fields
          failing_script_def retryable_def numeral_eq_Suc All_less_Suc)
  have d: "length (filter (\<lambda>q. req_method q = ''GET'')
              (sent (new_client\<lparr>sent := replicate 5 example_get, waits := [2, 4, 8, 16]\<rparr>)))
       \<le> length (filter (\<lambda>q. req_method q = ''GET'') (sent new_client)) + 5"
    using make_request_retry_policy [THEN conjunct2, THEN conjunct2, THEN conjunct2, rule_format, OF c] .
  from a b c d show ?thesis by blast
qed

text \<open>
  Claim C4 (the code departs from it). A connection-level failure is not retried. When a
  connection fails, the HTTP session raises \<^verbatim>\<open>requests.exceptions.ConnectionError\<close>; the
  decorator lists the builtin \<open>ConnectionError\<close>, of which the session's exception is not a
  subclass. A GET whose first attempt fails to connect therefore ends with that exception
  after one request and without any wait, although a second attempt would have been
  answered 200; the same holds for a POST. The other two kinds of the claim are retried as
  it says: after a 503 and a 429 the third attempt is made and its answer returned, with
  the waits 2 and 4 drawn; the builtin \<open>ConnectionError\<close>, were it raised, would be retried;
  and a 404 is not retried.
\<close>

theorem make_request_connection_failure_not_retried:
  "make_request 0 example_config (scripted [Raises RequestsConnectionError, ok_response (JObj [])])
       ''GET'' example_url None None new_client
     = Some (Inl RequestsConnectionError, new_client\<lparr>sent := [example_get]\<rparr>)
   \<and> retryable RequestsConnectionError = False
   \<and> make_request 0 example_config (scripted [Raises RequestsConnectionError, ok_response (JObj [])])
       ''POST'' example_url None (Some [(''displayName'', Some ''x'')]) new_client
     = Some (Inl RequestsConnectionError,
         new_client\<lparr>sent := [\<lparr>req_method = ''POST'', req_url = example_url, req_headers = [],
                                 req_data = Some [(''displayName'', Some ''x'')]\<rparr>]\<rparr>)
   \<and> make_request 0 example_config
       (scripted [status_response 503 ''busy'', status_response 429 ''slow'', ok_response (JObj [])])
       ''GET'' example_url None None new_client
     = Some (Inr (JObj []),
         new_client\<lparr>sent := [example_get, example_get, example_get], waits := [2, 4]\<rparr>)
   \<and> make_request 0 example_config (scripted [Raises ConnectionError, ok_response (JObj [])])
       ''GET'' example_url None None new_client
     = Some (Inr (JObj []), new_client\<lparr>sent := [example_get, example_get], waits := [2]\<rparr>)
   \<and> make_request 0 example_config (scripted [status_response 404 ''none'', ok_response (JObj [])])
       ''GET'' example_url None None new_client
     = Some (Inl (RuntimeError ''none''), new_client\<lparr>sent := [example_get]\<rparr>)"
  by code_simp

subsection \<open>Login\<close>










subsection \<open>Unauthorized responses and request headers\<close>

text \<open>
  Claim C1 (the code departs from it). A GET is answered 401 and the token request that
  follows succeeds: \<^verbatim>\<open>make_request\<close> logs in once, the token changes from T1 to T2, and
  then \<open>RuntimeError\<close> with the text of the 401 response is raised. That exception is not
  in the decorator's tuple, so the GET is not sent again: the log holds the first GET, with
  the old token, and the token request, although the script has a success ready for a
  replayed GET.
\<close>

theorem make_request_unauthorized_not_replayed:
  "make_request 1 example_config
       (scripted [status_response 401 ''unauthorized'',
                  ok_response (JObj [(''access_token'', JStr ''T2'')]),
                  ok_response (JObj [(''value'', JArr [])])])
       ''GET'' example_url None None (new_client\<lparr>access_token := JStr ''T1''\<rparr>)
     = Some (Inl (RuntimeError ''unauthorized''),
         new_client\<lparr>access_token := JStr ''T2'', client_id := Some ''id'',
           client_secret := Some ''secret'', tenant_id := Some ''tenant'', login_timer := Some 3599,
           sent := [example_get\<lparr>req_headers := [(''Authorization'', Bearer (JStr ''T1'')),
                                                  (''User-Agent'', Plain ''tap'')]\<rparr>,
                    token_request],
           timers := [3599]\<rparr>)"
  by code_simp

text \<open>
  Claim C2 (the code departs from it). With the token T stored, a POST is sent without any
  headers: the \<^verbatim>\<open>headers\<close> dict is built but not passed to \<^verbatim>\<open>session.post\<close>. The same
  call with GET carries the Authorization header with the stored token and the configured
  User-Agent.
\<close>

theorem make_request_post_sends_no_headers:
  "make_request 0 example_config (scripted [ok_response (JObj [(''id'', JStr ''1'')])]) ''POST''
       example_url None (Some [(''displayName'', Some ''x'')])
       (new_client\<lparr>access_token := JStr ''T''\<rparr>)
     = Some (Inr (JObj [(''id'', JStr ''1'')]),
         new_client\<lparr>access_token := JStr ''T'',
           sent := [\<lparr>req_method = ''POST'', req_url = example_url, req_headers = [],
                     req_data = Some [(''displayName'', Some ''x'')]\<rparr>]\<rparr>)
   \<and> make_request 0 example_config (scripted [ok_response (JObj [(''id'', JStr ''1'')])]) ''GET''
       example_url None None (new_client\<lparr>access_token := JStr ''T''\<rparr>)
     = Some (Inr (JObj [(''id'', JStr ''1'')]),
         new_client\<lparr>access_token := JStr ''T'',
           sent := [\<lparr>req_method = ''GET'', req_url = example_url,
                     req_headers = [(''Authorization'', Bearer (JStr ''T'')),
                                    (''User-Agent'', Plain ''tap'')],
                     req_data = None\<rparr>]\<rparr>)"
  by code_simp

subsection \<open>Pagination\<close>

lemma loop_finished:
  "\<not> truthy next_url
     \<Longrightarrow> get_all_resources_loop fuel cfg net next_url response s = Some (Inr response, s)"
  by (cases fuel) simp_all

lemma make_request_success:
  assumes "meth = ''GET'' \<or> meth = ''POST''"
    and "req = \<lparr>req_method = meth, req_url = url,
                 req_headers = (if meth = ''GET'' then make_headers cfg s else []),
                 req_data = (if meth = ''GET'' then None else data)\<rparr>"
    and "net (sent s) req = Responds r"
    and "status_code r \<in> {200, 201, 202}" and "response_json r = Some v"
  shows "make_request fuel cfg net meth url params data s
           = Some (Inr v, s\<lparr>sent := sent s @ [req]\<rparr>)"
  by (rule make_request_returns) (rule undecorated_success [where net = net, OF assms])

lemma loop_page:
  assumes "truthy next_url"
    and "make_request fuel cfg net ''GET'' next_url None None s = Some (Inr (JObj kvs), s1)"
    and "kvs \<noteq> []"
    and "extend response (dict_get kvs ''value'' JNull) = Inr response'"
  shows "get_all_resources_loop (Suc fuel) cfg net next_url response s
           = get_all_resources_loop fuel cfg net (dict_get kvs ''@odata.nextLink'' JNull) response' s1"
  using assms by (simp add: Let_def)

text \<open>A non-empty page without the key \<^verbatim>\<open>value\<close> raises, whatever has been accumulated.\<close>

lemma loop_page_without_value:
  assumes "truthy next_url"
    and "make_request fuel cfg net ''GET'' next_url None None s = Some (Inr (JObj kvs), s1)"
    and "kvs \<noteq> []"
    and "map_of kvs ''value'' = None"
  shows "get_all_resources_loop (Suc fuel) cfg net next_url response s = Some (Inl TypeError, s1)"
  using assms by (simp add: Let_def dict_get_def)

text \<open>
  Claim C8. In every state of the pagination loop (any URL that passes the loop test, any
  records accumulated so far), if the page comes back with an empty or falsy body, the loop
  stops at once and \<^verbatim>\<open>get_all_resources\<close> returns exactly the records accumulated so
  far. The first part takes the page as \<^verbatim>\<open>make_request\<close> returns it; the second part
  takes it from the network: a response with status 200, 201 or 202 whose decoded body is
  falsy, after which exactly one request has been sent.
\<close>

theorem get_all_resources_empty_page_stops:
  "(truthy next_url
      \<and> make_request fuel cfg net ''GET'' next_url None None s = Some (Inr body, s1)
      \<and> \<not> truthy body
     \<longrightarrow> get_all_resources_loop (Suc fuel) cfg net next_url response s = Some (Inr response, s1))
   \<and> (truthy next_url
      \<and> req = \<lparr>req_method = ''GET'', req_url = next_url, req_headers = make_headers cfg s,
                 req_data = None\<rparr>
      \<and> net (sent s) req = Responds r \<and> status_code r \<in> {200, 201, 202}
      \<and> response_json r = Some body \<and> \<not> truthy body
     \<longrightarrow> get_all_resources_loop (Suc fuel) cfg net next_url response s
           = Some (Inr response, s\<lparr>sent := sent s @ [req]\<rparr>))"
proof -
  have p1: "get_all_resources_loop (Suc fuel) cfg net next_url response s = Some (Inr response, s1)"
    if "truthy next_url"
      and "make_request fuel cfg net ''GET'' next_url None None s = Some (Inr body, s1)"
      and "\<not> truthy body" for s1
    using that by (simp add: loop_finished)
  have p2: "get_all_resources_loop (Suc fuel) cfg net next_url response s
           = Some (Inr response, s\<lparr>sent := sent s @ [req]\<rparr>)"
    if t: "truthy next_url"
      and q: "req = \<lparr>req_method = ''GET'', req_url = next_url, req_headers = make_headers cfg s,
                 req_data = None\<rparr>"
      and n: "net (sent s) req = Responds r" and st: "status_code r \<in> {200, 201, 202}"
      and j: "response_json r = Some body" and f: "\<not> truthy body"
  proof -
    have "make_request fuel cfg net ''GET'' next_url None None s
            = Some (Inr body, s\<lparr>sent := sent s @ [req]\<rparr>)"
      by (rule make_request_success [where net = net and r = r]) (use q n st j in simp_all)
    from p1 [OF t this f] show ?thesis .
  qed
  show ?thesis using p1 p2 by blast
qed

text \<open>
  Witness for claim C8: with two records accumulated, an empty object and an empty array
  both end the loop with those two records.
\<close>

theorem get_all_resources_empty_page_stops_witness:
  "get_all_resources_loop 1 example_config (scripted [ok_response (JObj [])]) example_url
       [JStr ''a'', JStr ''b''] new_client
     = Some (Inr [JStr ''a'', JStr ''b''], new_client\<lparr>sent := [example_get]\<rparr>)
   \<and> get_all_resources_loop 1 example_config (scripted [ok_response (JArr [])]) example_url
       [JStr ''a'', JStr ''b''] new_client
     = Some (Inr [JStr ''a'', JStr ''b''], new_client\<lparr>sent := [example_get]\<rparr>)"
proof
  have m: "make_request 0 example_config (scripted [ok_response (JObj [])]) ''GET'' example_url
             None None new_client
           = Some (Inr (JObj []), new_client\<lparr>sent := [example_get]\<rparr>)"
    by code_simp
  have t: "truthy example_url" by (simp add: example_url_def)
  show "get_all_resources_loop 1 example_config (scripted [ok_response (JObj [])]) example_url
       [JStr ''a'', JStr ''b''] new_client
     = Some (Inr [JStr ''a'', JStr ''b''], new_client\<lparr>sent := [example_get]\<rparr>)"
    using get_all_resources_empty_page_stops [THEN conjunct1, rule_format, OF conjI [OF t conjI [OF m]]]
    by simp
next
  show "get_all_resources_loop 1 example_config (scripted [ok_response (JArr [])]) example_url
       [JStr ''a'', JStr ''b''] new_client
     = Some (Inr [JStr ''a'', JStr ''b''], new_client\<lparr>sent := [example_get]\<rparr>)"
    using get_all_resources_empty_page_stops [where next_url = example_url and req = example_get
        and net = "scripted [ok_response (JArr [])]" and s = new_client and cfg = example_config
        and fuel = 0 and body = "JArr []" and response = "[JStr ''a'', JStr ''b'']"
        and r = "\<lparr>status_code = 200, response_text = ''ok'', response_json = Some (JArr [])\<rparr>",
        THEN conjunct2]
    by (simp add: example_headers(2) scripted_def example_get_def ok_response_def
          new_client_fields example_url_def)
qed

text \<open>
  Claim C3. Let the first page, served at the URL built from the arguments, hold
  \<^verbatim>\<open>@odata.nextLink\<close> = \<open>u2\<close> and \<^verbatim>\<open>value\<close> = \<open>xs\<close>, and let the second page, served
  at \<open>u2\<close>, hold no \<^verbatim>\<open>@odata.nextLink\<close> and \<^verbatim>\<open>value\<close> = \<open>ys\<close>. Then, given fuel for
  two iterations, \<^verbatim>\<open>get_all_resources\<close> returns \<open>xs @ ys\<close>: the records in page fetch
  order, each page in the order the server gave (for \<open>xs = [a, b]\<close> and \<open>ys = [c]\<close> this
  is \<open>[a, b, c]\<close>), after exactly the two GET requests.
\<close>

theorem get_all_resources_two_pages:
  assumes "build_url BASE_GRAPH_URL version endpoint
             (arg_entry ''$top'' top_arg @ arg_entry ''$orderby'' orderby
                @ arg_entry ''$filter'' filter_param) = Inr u1"
    and "req1 = \<lparr>req_method = ''GET'', req_url = JStr u1, req_headers = make_headers cfg s,
                  req_data = None\<rparr>"
    and "net (sent s) req1 = Responds r1"
    and "status_code r1 \<in> {200, 201, 202}"
    and "response_json r1 = Some (JObj kvs1)"
    and "map_of kvs1 ''@odata.nextLink'' = Some (JStr u2)" and "u2 \<noteq> []"
    and "map_of kvs1 ''value'' = Some (JArr xs)"
    and "req2 = \<lparr>req_method = ''GET'', req_url = JStr u2, req_headers = make_headers cfg s,
                  req_data = None\<rparr>"
    and "net (sent s @ [req1]) req2 = Responds r2"
    and "status_code r2 \<in> {200, 201, 202}"
    and "response_json r2 = Some (JObj kvs2)"
    and "map_of kvs2 ''@odata.nextLink'' = None"
    and "map_of kvs2 ''value'' = Some (JArr ys)"
  shows "get_all_resources (Suc (Suc fuel)) cfg net version endpoint top_arg orderby filter_param s
           = Some (Inr (xs @ ys), s\<lparr>sent := sent s @ [req1, req2]\<rparr>)"
proof -
  let ?s1 = "s\<lparr>sent := sent s @ [req1]\<rparr>"
  let ?s2 = "?s1\<lparr>sent := sent ?s1 @ [req2]\<rparr>"
  have u1: "truthy (JStr u1)"
    using build_url_graph_nonempty [OF assms(1)] by simp
  have m1: "make_request (Suc fuel) cfg net ''GET'' (JStr u1) None None s
              = Some (Inr (JObj kvs1), ?s1)"
    by (rule make_request_success [where net = net and r = r1])
       (use assms(2-5) in simp_all)
  have k1: "kvs1 \<noteq> []" using assms(6) by auto
  have e1: "extend [] (dict_get kvs1 ''value'' JNull) = Inr xs"
    using assms(8) by (simp add: dict_get_def)
  have n1: "dict_get kvs1 ''@odata.nextLink'' JNull = JStr u2"
    using assms(6) by (simp add: dict_get_def)
  have step1: "get_all_resources_loop (Suc (Suc fuel)) cfg net (JStr u1) [] s
                 = get_all_resources_loop (Suc fuel) cfg net (JStr u2) xs ?s1"
    using loop_page [OF u1 m1 k1 e1] unfolding n1 .
  have m2: "make_request fuel cfg net ''GET'' (JStr u2) None None ?s1
              = Some (Inr (JObj kvs2), ?s2)"
    by (rule make_request_success [where net = net and r = r2])
       (use assms(9-12) in simp_all)
  have k2: "kvs2 \<noteq> []" using assms(14) by auto
  have e2: "extend xs (dict_get kvs2 ''value'' JNull) = Inr (xs @ ys)"
    using assms(14) by (simp add: dict_get_def)
  have n2: "dict_get kvs2 ''@odata.nextLink'' JNull = JNull"
    using assms(13) by (simp add: dict_get_def)
  have u2: "truthy (JStr u2)" using assms(7) by simp
  have step2: "get_all_resources_loop (Suc fuel) cfg net (JStr u2) xs ?s1
                 = get_all_resources_loop fuel cfg net JNull (xs @ ys) ?s2"
    using loop_page [OF u2 m2 k2 e2] unfolding n2 .
  have fin: "get_all_resources_loop fuel cfg net JNull (xs @ ys) ?s2 = Some (Inr (xs @ ys), ?s2)"
    by (rule loop_finished) simp
  have st: "?s2 = s\<lparr>sent := sent s @ [req1, req2]\<rparr>" by simp
  show ?thesis
    unfolding get_all_resources_def Let_def assms(1) using step1 step2 fin st by simp
qed

lemma graph_users_url:
  "build_url BASE_GRAPH_URL ''v1.0'' ''users''
     (arg_entry ''$top'' None @ arg_entry ''$orderby'' None @ arg_entry ''$filter'' None)
     = Inr ''https://graph.microsoft.com/v1.0/users''"
  by code_simp

text \<open>
  Witness for claim C3: the two pages \<open>[a, b]\<close> and \<open>[c]\<close> of the users endpoint.
\<close>

theorem get_all_resources_two_pages_witness:
  "get_all_resources 2 example_config (scripted [ok_response page_one, ok_response page_two])
       ''v1.0'' ''users'' None None None new_client
     = Some (Inr [JStr ''a'', JStr ''b'', JStr ''c''],
         new_client\<lparr>sent := [example_get,
           example_get\<lparr>req_url := JStr ''https://graph.microsoft.com/v1.0/users?$skiptoken=X''\<rparr>]\<rparr>)"
  using get_all_resources_two_pages [OF graph_users_url, where cfg = example_config
      and s = new_client and ?req1.0 = example_get
      and net = "scripted [ok_response page_one, ok_response page_two]"
      and ?r1.0 = "\<lparr>status_code = 200, response_text = ''ok'', response_json = Some page_one\<rparr>"
      and ?kvs1.0 = "[(''@odata.context'', JStr ''https://graph.microsoft.com/v1.0/$metadata#users''),
         (''@odata.nextLink'', JStr ''https://graph.microsoft.com/v1.0/users?$skiptoken=X''),
         (''value'', JArr [JStr ''a'', JStr ''b''])]"
      and ?u2.0 = "''https://graph.microsoft.com/v1.0/users?$skiptoken=X''"
      and xs = "[JStr ''a'', JStr ''b'']"
      and ?req2.0 = "example_get\<lparr>req_url := JStr ''https://graph.microsoft.com/v1.0/users?$skiptoken=X''\<rparr>"
      and ?r2.0 = "\<lparr>status_code = 200, response_text = ''ok'', response_json = Some page_two\<rparr>"
      and ?kvs2.0 = "[(''value'', JArr [JStr ''c''])]" and ys = "[JStr ''c'']" and fuel = 0]
  by (simp add: example_headers(2) scripted_def example_get_def ok_response_def
        new_client_fields example_url_def page_one_def page_two_def numeral_2_eq_2)

text \<open>
  Claim C5 (the code departs from it). A page whose body is a non-empty object without the
  key \<^verbatim>\<open>value\<close>: \<^verbatim>\<open>body.get('value')\<close> is \<^verbatim>\<open>None\<close>, and
  \<^verbatim>\<open>response.extend(None)\<close> raises \<open>TypeError\<close>. The page does not count as contributing
  no records; \<^verbatim>\<open>get_all_resources\<close> fails.
\<close>

theorem get_all_resources_page_without_value_raises:
  "get_all_resources 1 example_config
       (scripted [ok_response (JObj [(''@odata.context'', JStr ''ctx'')])])
       ''v1.0'' ''users'' None None None new_client
     = Some (Inl TypeError, new_client\<lparr>sent := [example_get]\<rparr>)"
  by code_simp

end
